theory Spec2Isabelle
  imports Complex_Main "HOL-Library.Sublist" "HOL-Library.Log_Nat" "HOL-Library.Multiset"
begin

section \<open>Python values used by the asset generator\<close>

text \<open>
  The development embeds the procedural asset generator of \<^verbatim>\<open>gamedev_ai_mvp.py\<close>
  (class \<^verbatim>\<open>AIAssetGenerator\<close>) and the backend router of \<^verbatim>\<open>ai_integration.py\<close>
  (class \<^verbatim>\<open>RealAIAssetGenerator\<close>).

  Python integers are unbounded: \<open>int\<close>. A colour of the palette is a tuple of three
  Python integers. Prompts and names are strings of one-byte characters; \<^verbatim>\<open>str.lower\<close>
  is modelled on the ASCII letters. An exception is a value of \<open>py_error\<close>, returned
  on the left of a sum.
\<close>

type_synonym rgb = "int \<times> int \<times> int"

datatype py_error = IndexError | ValueError | ZeroDivisionError

definition lower_char :: "char \<Rightarrow> char" where
  "lower_char c =
     (let n = (of_char c :: nat) in if 65 \<le> n \<and> n \<le> 90 then char_of (n + 32) else c)"

definition lower :: "string \<Rightarrow> string" where
  "lower s = map lower_char s"

text \<open>
  \<^verbatim>\<open>needle in haystack\<close> on strings: the needle starts at some position of the
  haystack. The search walks the haystack from the left.
\<close>

fun starts_with :: "string \<Rightarrow> string \<Rightarrow> bool" where
  "starts_with [] hay = True"
| "starts_with (c # cs) [] = False"
| "starts_with (c # cs) (h # hs) = (c = h \<and> starts_with cs hs)"

fun py_in :: "string \<Rightarrow> string \<Rightarrow> bool" where
  "py_in needle [] = (needle = [])"
| "py_in needle (h # hs) = (starts_with needle (h # hs) \<or> py_in needle hs)"

section \<open>Backend selection (\<^verbatim>\<open>RealAIAssetGenerator.generate_asset\<close>)\<close>

text \<open>
  An API key is read with \<^verbatim>\<open>os.getenv\<close>: \<open>None\<close> when the variable is not set,
  otherwise its text. The router tests the key's truth value, so an empty text counts
  as no key. \<open>generate_asset_route\<close> is the branch \<^verbatim>\<open>generate_asset\<close> takes: which
  generator it calls.
\<close>

datatype backend = DallE | StableDiffusion | ProceduralFallback

definition configured :: "string option \<Rightarrow> bool" where
  "configured k = (case k of None \<Rightarrow> False | Some s \<Rightarrow> s \<noteq> [])"

definition generate_asset_route :: "string \<Rightarrow> string option \<Rightarrow> string option \<Rightarrow> backend" where
  "generate_asset_route model_preference openai_api_key stability_api_key =
     (if model_preference = ''dalle'' \<and> configured openai_api_key then DallE
      else if model_preference = ''stable_diffusion'' \<and> configured stability_api_key
      then StableDiffusion
      else if configured openai_api_key then DallE
      else if configured stability_api_key then StableDiffusion
      else ProceduralFallback)"

section \<open>Prompt analysis\<close>

text \<open>
  \<^verbatim>\<open>_analyze_prompt_colors\<close>: the dictionary \<^verbatim>\<open>color_keywords\<close> is iterated in
  insertion order, so it is an association list. The loop appends the colour of every
  name found in the lowered prompt.
\<close>

definition color_keywords :: "(string \<times> rgb) list" where
  "color_keywords =
     [(''red'', (255, 0, 0)), (''blue'', (0, 0, 255)), (''green'', (0, 255, 0)),
      (''yellow'', (255, 255, 0)), (''purple'', (128, 0, 128)), (''orange'', (255, 165, 0)),
      (''brown'', (139, 69, 19)), (''black'', (0, 0, 0)), (''white'', (255, 255, 255)),
      (''gray'', (128, 128, 128)), (''pink'', (255, 192, 203))]"

definition default_colors :: "rgb list" where
  "default_colors = [(100, 150, 200), (200, 100, 150), (150, 200, 100)]"

fun color_loop :: "(string \<times> rgb) list \<Rightarrow> string \<Rightarrow> rgb list \<Rightarrow> rgb list" where
  "color_loop [] prompt_lower found_colors = found_colors"
| "color_loop ((color_name, c) # rest) prompt_lower found_colors =
     color_loop rest prompt_lower
       (if py_in color_name prompt_lower then found_colors @ [c] else found_colors)"

definition analyze_prompt_colors :: "string \<Rightarrow> rgb list" where
  "analyze_prompt_colors prompt =
     (let found_colors = color_loop color_keywords (lower prompt) []
      in if found_colors = [] then default_colors else found_colors)"

text \<open>
  \<^verbatim>\<open>_analyze_prompt_shapes\<close>: a list comprehension over the shape vocabulary; the
  prompt is lowered for every test.
\<close>

definition shape_keywords :: "string list" where
  "shape_keywords =
     [''circle'', ''square'', ''triangle'', ''rectangle'', ''star'', ''diamond'', ''hexagon'']"

definition analyze_prompt_shapes :: "string \<Rightarrow> string list" where
  "analyze_prompt_shapes prompt =
     (let found_shapes = filter (\<lambda>shape. py_in shape (lower prompt)) shape_keywords
      in if found_shapes = [] then [''rectangle''] else found_shapes)"

text \<open>
  The specification's reading of the colour search: a table name occurs in the prompt,
  letter case ignored, when the lowered prompt splits around it.
\<close>

definition occurs_ci :: "string \<Rightarrow> string \<Rightarrow> bool" where
  "occurs_ci name prompt = (\<exists>before after. lower prompt = before @ name @ after)"

definition matched_colors :: "string \<Rightarrow> rgb list" where
  "matched_colors prompt = map snd (filter (\<lambda>(name, c). occurs_ci name prompt) color_keywords)"

section \<open>Python floats\<close>

text \<open>
  A Python float is an IEEE 754 binary64 number. Every finite one is a rational, and
  every operation the generator uses (\<^verbatim>\<open>int * float\<close>, \<^verbatim>\<open>float + float\<close>,
  \<^verbatim>\<open>1 - float\<close>, \<^verbatim>\<open>int / int\<close>, a float literal) returns the exact result
  rounded to the nearest number with a 53-bit significand, ties to the even
  significand. \<open>fl\<close> is that rounding on the rationals. The exponent range is not
  bounded here: the values of the generator (channels, ratios between 0 and 1) stay far
  inside it. \<^verbatim>\<open>int(x)\<close> truncates towards zero.
\<close>

type_synonym py_float = rat

definition pow2 :: "int \<Rightarrow> rat" where
  "pow2 k = (if 0 \<le> k then 2 ^ nat k else 1 / 2 ^ nat (- k))"

definition round_half_even :: "rat \<Rightarrow> int" where
  "round_half_even x =
     (let n = \<lfloor>x\<rfloor>; d = x - of_int n
      in if d < 1 / 2 then n else if 1 / 2 < d then n + 1 else if even n then n else n + 1)"

text \<open>The binary exponent of a positive rational: the \<open>e\<close> with \<open>2^e \<le> x < 2^(e+1)\<close>.\<close>

definition binade :: "rat \<Rightarrow> int" where
  "binade x =
     (let (p, q) = quotient_of x; d = bitlen p - bitlen q
      in if pow2 d \<le> x then d else d - 1)"

definition fl :: "rat \<Rightarrow> py_float" where
  "fl x =
     (if x = 0 then 0
      else let u = pow2 (binade \<bar>x\<bar> - 52) in of_int (round_half_even (x / u)) * u)"

definition float_of_int :: "int \<Rightarrow> py_float" where
  "float_of_int n = fl (of_int n)"

definition fmul :: "py_float \<Rightarrow> py_float \<Rightarrow> py_float" where
  "fmul a b = fl (a * b)"

definition fadd :: "py_float \<Rightarrow> py_float \<Rightarrow> py_float" where
  "fadd a b = fl (a + b)"

definition fsub :: "py_float \<Rightarrow> py_float \<Rightarrow> py_float" where
  "fsub a b = fl (a - b)"

definition true_div :: "int \<Rightarrow> int \<Rightarrow> py_error + py_float" where
  "true_div a b = (if b = 0 then Inl ZeroDivisionError else Inr (fl (of_int a / of_int b)))"

definition py_int :: "py_float \<Rightarrow> int" where
  "py_int x = (if 0 \<le> x then \<lfloor>x\<rfloor> else \<lceil>x\<rceil>)"

section \<open>Style presets\<close>

record style_config =
  saturation :: py_float
  contrast :: py_float

definition realistic :: style_config where
  "realistic = \<lparr>saturation = fl 1, contrast = fl (12 / 10)\<rparr>"

definition style_presets :: "(string \<times> style_config) list" where
  "style_presets =
     [(''realistic'', realistic),
      (''cartoon'', \<lparr>saturation = fl (15 / 10), contrast = fl (8 / 10)\<rparr>),
      (''pixel'', \<lparr>saturation = fl (13 / 10), contrast = fl 1\<rparr>),
      (''minimalist'', \<lparr>saturation = fl (7 / 10), contrast = fl (11 / 10)\<rparr>)]"

text \<open>\<^verbatim>\<open>self.style_presets.get(style, self.style_presets["realistic"])\<close>\<close>

definition style_get :: "string \<Rightarrow> style_config" where
  "style_get style =
     (case map_of style_presets style of Some cfg \<Rightarrow> cfg | None \<Rightarrow> realistic)"

section \<open>The random source and the drawing surface\<close>

text \<open>
  \<^verbatim>\<open>random.choice\<close> reads the process-wide generator. Its state is a stream of raw
  draws and the number already used; a choice takes the next draw as an index into the
  sequence and raises \<open>IndexError\<close> on an empty sequence.
\<close>

record rng =
  draws :: "nat \<Rightarrow> nat"
  used :: nat

definition random_choice :: "rng \<Rightarrow> 'a list \<Rightarrow> py_error + ('a \<times> rng)" where
  "random_choice g xs =
     (if xs = [] then Inl IndexError
      else Inr (xs ! (draws g (used g) mod length xs), g\<lparr>used := Suc (used g)\<rparr>))"

text \<open>\<^verbatim>\<open>xs[i]\<close> for an index literal \<open>i \<ge> 0\<close>.\<close>

definition py_index :: "'a list \<Rightarrow> nat \<Rightarrow> py_error + 'a" where
  "py_index xs i = (if i < length xs then Inr (xs ! i) else Inl IndexError)"

text \<open>\<^verbatim>\<open>range(start, stop, step)\<close> for a positive step.\<close>

function py_range :: "int \<Rightarrow> int \<Rightarrow> int \<Rightarrow> int list" where
  "py_range start stop step =
     (if 0 < step \<and> start < stop then start # py_range (start + step) stop step else [])"
  by pat_completeness auto
termination
  by (relation "measure (\<lambda>(start, stop, step). nat (stop - start))") auto

declare py_range.simps [simp del]

text \<open>
  The \<^verbatim>\<open>ImageDraw\<close> object is the list of the calls made on it. Pillow documents the
  box of \<^verbatim>\<open>rectangle\<close> and \<^verbatim>\<open>ellipse\<close> as \<^verbatim>\<open>[x0, y0, x1, y1]\<close> with
  \<^verbatim>\<open>x1 >= x0\<close> and \<^verbatim>\<open>y1 >= y0\<close>, and raises \<open>ValueError\<close> for any other box
  (Pillow 9.5 and later). \<^verbatim>\<open>line\<close> takes any two points.
\<close>

type_synonym box = "int \<times> int \<times> int \<times> int"

datatype draw_call =
    Rectangle box rgb
  | Ellipse box rgb "rgb option"
  | Line "int \<times> int" "int \<times> int" rgb

type_synonym draw = "draw_call list"

definition ordered :: "box \<Rightarrow> bool" where
  "ordered b = (case b of (x0, y0, x1, y1) \<Rightarrow> x0 \<le> x1 \<and> y0 \<le> y1)"

definition draw_rectangle :: "draw \<Rightarrow> box \<Rightarrow> rgb \<Rightarrow> py_error + draw" where
  "draw_rectangle d b fill = (if ordered b then Inr (d @ [Rectangle b fill]) else Inl ValueError)"

definition draw_ellipse :: "draw \<Rightarrow> box \<Rightarrow> rgb \<Rightarrow> rgb option \<Rightarrow> py_error + draw" where
  "draw_ellipse d b fill outline =
     (if ordered b then Inr (d @ [Ellipse b fill outline]) else Inl ValueError)"

definition draw_line :: "draw \<Rightarrow> int \<times> int \<Rightarrow> int \<times> int \<Rightarrow> rgb \<Rightarrow> draw" where
  "draw_line d p q fill = d @ [Line p q fill]"

section \<open>The four drawing routines\<close>

text \<open>
  Each routine takes the state it changes, the random source and the drawing surface,
  and returns the new state or the exception that ended it.
\<close>

text \<open>\<^verbatim>\<open>tuple(int(c * style_config["contrast"]) for c in color)\<close>\<close>

definition scale_channel :: "style_config \<Rightarrow> int \<Rightarrow> int" where
  "scale_channel style c = py_int (fmul (float_of_int c) (contrast style))"

definition modified_color :: "style_config \<Rightarrow> rgb \<Rightarrow> rgb" where
  "modified_color style color =
     (case color of (r, g, b) \<Rightarrow>
        (scale_channel style r, scale_channel style g, scale_channel style b))"

text \<open>\<^verbatim>\<open>_generate_texture\<close>: the inner loop over \<open>j\<close>, then the outer loop over \<open>i\<close>.\<close>

fun texture_column ::
  "rgb list \<Rightarrow> style_config \<Rightarrow> int \<Rightarrow> int list \<Rightarrow> rng \<times> draw \<Rightarrow> py_error + (rng \<times> draw)" where
  "texture_column colors style i [] st = Inr st"
| "texture_column colors style i (j # js) (g, d) =
     (case random_choice g colors of
        Inl e \<Rightarrow> Inl e
      | Inr (color, g') \<Rightarrow>
          (case draw_rectangle d (i, j, i + 15, j + 15) (modified_color style color) of
             Inl e \<Rightarrow> Inl e
           | Inr d' \<Rightarrow> texture_column colors style i js (g', d')))"

fun texture_columns ::
  "rgb list \<Rightarrow> style_config \<Rightarrow> int \<Rightarrow> int list \<Rightarrow> rng \<times> draw \<Rightarrow> py_error + (rng \<times> draw)" where
  "texture_columns colors style height [] st = Inr st"
| "texture_columns colors style height (i # is) st =
     (case texture_column colors style i (py_range 0 height 20) st of
        Inl e \<Rightarrow> Inl e
      | Inr st' \<Rightarrow> texture_columns colors style height is st')"

definition generate_texture ::
  "rng \<times> draw \<Rightarrow> int \<Rightarrow> int \<Rightarrow> rgb list \<Rightarrow> style_config \<Rightarrow> py_error + (rng \<times> draw)" where
  "generate_texture st width height colors style =
     texture_columns colors style height (py_range 0 width 20) st"

text \<open>
  \<^verbatim>\<open>_generate_sprite\<close>: the loop over \<^verbatim>\<open>shapes[:3]\<close>. The colour is chosen before
  the shape name is looked at, and the size shrinks after every shape.
\<close>

definition centered :: "int \<Rightarrow> int \<Rightarrow> int \<Rightarrow> box" where
  "centered center_x center_y size' =
     (center_x - size', center_y - size', center_x + size', center_y + size')"

fun sprite_loop ::
  "rgb list \<Rightarrow> int \<Rightarrow> int \<Rightarrow> string list \<Rightarrow> int \<Rightarrow> rng \<times> draw \<Rightarrow> py_error + (rng \<times> draw)" where
  "sprite_loop colors center_x center_y [] size' st = Inr st"
| "sprite_loop colors center_x center_y (shape # rest) size' (g, d) =
     (case random_choice g colors of
        Inl e \<Rightarrow> Inl e
      | Inr (color, g') \<Rightarrow>
          (case (if shape = ''circle''
                 then draw_ellipse d (centered center_x center_y size') color None
                 else if shape = ''rectangle''
                 then draw_rectangle d (centered center_x center_y size') color
                 else Inr d) of
             Inl e \<Rightarrow> Inl e
           | Inr d' \<Rightarrow> sprite_loop colors center_x center_y rest (size' - 10) (g', d')))"

definition generate_sprite ::
  "rng \<times> draw \<Rightarrow> int \<Rightarrow> int \<Rightarrow> rgb list \<Rightarrow> string list \<Rightarrow> style_config
     \<Rightarrow> py_error + (rng \<times> draw)" where
  "generate_sprite st width height colors shapes style =
     sprite_loop colors (width div 2) (height div 2) (take 3 shapes)
       (min width height div 3) st"

text \<open>\<^verbatim>\<open>_generate_icon\<close>\<close>

definition second_or ::
  "rgb list \<Rightarrow> (py_error + rgb) \<Rightarrow> py_error + rgb" where
  "second_or colors other = (if 1 < length colors then py_index colors 1 else other)"

definition generate_icon ::
  "rng \<times> draw \<Rightarrow> int \<Rightarrow> int \<Rightarrow> rgb list \<Rightarrow> style_config \<Rightarrow> py_error + (rng \<times> draw)" where
  "generate_icon st width height colors style =
     (case st of (g, d) \<Rightarrow>
        let center_x = width div 2; center_y = height div 2;
            size' = min width height div 3
        in case py_index colors 0 of
             Inl e \<Rightarrow> Inl e
           | Inr fill \<Rightarrow>
               (case second_or colors (py_index colors 0) of
                  Inl e \<Rightarrow> Inl e
                | Inr outline \<Rightarrow>
                    (case draw_ellipse d (centered center_x center_y size') fill (Some outline) of
                       Inl e \<Rightarrow> Inl e
                     | Inr d1 \<Rightarrow>
                         let inner_size = size' div 2
                         in case second_or colors (Inr (255, 255, 255)) of
                              Inl e \<Rightarrow> Inl e
                            | Inr inner \<Rightarrow>
                                (case draw_rectangle d1
                                        (centered center_x center_y inner_size) inner of
                                   Inl e \<Rightarrow> Inl e
                                 | Inr d2 \<Rightarrow> Inr (g, d2)))))"

text \<open>
  \<^verbatim>\<open>_generate_background\<close>: one line per row. The blend of a channel is
  \<^verbatim>\<open>int(c1 * (1 - ratio) + c2 * ratio)\<close> in float arithmetic.
\<close>

definition blend :: "int \<Rightarrow> int \<Rightarrow> py_float \<Rightarrow> int" where
  "blend c1 c2 ratio =
     py_int (fadd (fmul (float_of_int c1) (fsub (float_of_int 1) ratio))
                  (fmul (float_of_int c2) ratio))"

definition blend_color :: "rgb \<Rightarrow> rgb \<Rightarrow> py_float \<Rightarrow> rgb" where
  "blend_color color1 color2 ratio =
     (case color1 of (r1, g1, b1) \<Rightarrow> case color2 of (r2, g2, b2) \<Rightarrow>
        (blend r1 r2 ratio, blend g1 g2 ratio, blend b1 b2 ratio))"

fun background_rows ::
  "rgb list \<Rightarrow> int \<Rightarrow> int \<Rightarrow> int list \<Rightarrow> rng \<times> draw \<Rightarrow> py_error + (rng \<times> draw)" where
  "background_rows colors width height [] st = Inr st"
| "background_rows colors width height (y # ys) (g, d) =
     (case true_div y height of
        Inl e \<Rightarrow> Inl e
      | Inr ratio \<Rightarrow>
          (case py_index colors 0 of
             Inl e \<Rightarrow> Inl e
           | Inr color1 \<Rightarrow>
               (case second_or colors (py_index colors 0) of
                  Inl e \<Rightarrow> Inl e
                | Inr color2 \<Rightarrow>
                    background_rows colors width height ys
                      (g, draw_line d (0, y) (width, y) (blend_color color1 color2 ratio)))))"

definition generate_background ::
  "rng \<times> draw \<Rightarrow> int \<Rightarrow> int \<Rightarrow> rgb list \<Rightarrow> style_config \<Rightarrow> py_error + (rng \<times> draw)" where
  "generate_background st width height colors style =
     background_rows colors width height (py_range 0 height 1) st"

section \<open>The image and the dispatcher\<close>

text \<open>
  An image is its size, the colour \<^verbatim>\<open>Image.new\<close> filled it with, and the calls drawn
  on it since. \<^verbatim>\<open>Image.new\<close> raises \<open>ValueError\<close> for a negative size.
\<close>

type_synonym rgba = "int \<times> int \<times> int \<times> int"

record image =
  img_width :: int
  img_height :: int
  img_color :: rgba
  img_draw :: draw

definition image_new :: "int \<Rightarrow> int \<Rightarrow> rgba \<Rightarrow> py_error + image" where
  "image_new width height color =
     (if width < 0 \<or> height < 0 then Inl ValueError
      else Inr \<lparr>img_width = width, img_height = height, img_color = color, img_draw = []\<rparr>)"

text \<open>
  \<^verbatim>\<open>_create_procedural_asset\<close>: the \<^verbatim>\<open>if/elif\<close> chain has no \<^verbatim>\<open>else\<close>, so any
  other asset type draws nothing.
\<close>

definition create_procedural_asset ::
  "rng \<Rightarrow> string \<Rightarrow> string \<Rightarrow> string \<Rightarrow> int \<Rightarrow> int \<Rightarrow> py_error + (image \<times> rng)" where
  "create_procedural_asset g prompt asset_type style width height =
     (case image_new width height (255, 255, 255, 0) of
        Inl e \<Rightarrow> Inl e
      | Inr img \<Rightarrow>
          let colors = analyze_prompt_colors prompt;
              shapes = analyze_prompt_shapes prompt;
              style_config = style_get style;
              drawn =
                (if asset_type = ''texture''
                 then generate_texture (g, img_draw img) width height colors style_config
                 else if asset_type = ''sprite''
                 then generate_sprite (g, img_draw img) width height colors shapes style_config
                 else if asset_type = ''icon''
                 then generate_icon (g, img_draw img) width height colors style_config
                 else if asset_type = ''background''
                 then generate_background (g, img_draw img) width height colors style_config
                 else Inr (g, img_draw img))
          in case drawn of
               Inl e \<Rightarrow> Inl e
             | Inr (g', d) \<Rightarrow> Inr (img\<lparr>img_draw := d\<rparr>, g'))"

section \<open>What the calls leave in the pixel buffer\<close>

text \<open>
  The pixels follow Pillow's contract for the calls. A filled rectangle covers its box,
  both corners included; a horizontal line covers its row between its end points, both
  included. The pixels of an ellipse and of a slanted line are what Pillow's rasteriser
  makes them: that rasteriser is a parameter. A call writes its colour with the
  channels clipped to 0..255 and alpha 255. \<open>pixel\<close> is the colour at a position of the
  canvas after all calls, the later call on top; it is read inside the canvas only.
\<close>

type_synonym rasteriser = "draw_call \<Rightarrow> int \<times> int \<Rightarrow> rgb option"

fun paint :: "rasteriser \<Rightarrow> draw_call \<Rightarrow> int \<times> int \<Rightarrow> rgb option" where
  "paint ras (Rectangle (x0, y0, x1, y1) fill) (x, y) =
     (if x0 \<le> x \<and> x \<le> x1 \<and> y0 \<le> y \<and> y \<le> y1 then Some fill else None)"
| "paint ras (Line (xa, ya) (xb, yb) fill) (x, y) =
     (if ya = yb
      then (if y = ya \<and> min xa xb \<le> x \<and> x \<le> max xa xb then Some fill else None)
      else ras (Line (xa, ya) (xb, yb) fill) (x, y))"
| "paint ras (Ellipse b fill outline) (x, y) = ras (Ellipse b fill outline) (x, y)"

definition clip8 :: "int \<Rightarrow> int" where
  "clip8 v = (if v < 0 then 0 else if 255 < v then 255 else v)"

definition ink :: "rgb \<Rightarrow> rgba" where
  "ink color = (case color of (r, g, b) \<Rightarrow> (clip8 r, clip8 g, clip8 b, 255))"

fun pixel_after :: "rasteriser \<Rightarrow> draw \<Rightarrow> int \<times> int \<Rightarrow> rgba \<Rightarrow> rgba" where
  "pixel_after ras [] p cur = cur"
| "pixel_after ras (c # cs) p cur =
     pixel_after ras cs p (case paint ras c p of None \<Rightarrow> cur | Some color \<Rightarrow> ink color)"

definition pixel :: "rasteriser \<Rightarrow> image \<Rightarrow> int \<times> int \<Rightarrow> rgba" where
  "pixel ras img p = pixel_after ras (img_draw img) p (img_color img)"

definition alpha :: "rgba \<Rightarrow> int" where
  "alpha px = (case px of (r, g, b, a) \<Rightarrow> a)"

section \<open>The colour palette summary\<close>

text \<open>
  \<^verbatim>\<open>_extract_color_palette\<close> works on the value of
  \<^verbatim>\<open>image.getcolors(maxcolors=256*256*256)\<close>: \<open>None\<close> when the image has more colours
  than \<^verbatim>\<open>maxcolors\<close>, otherwise one pair (count, colour) for every colour of the
  image, in an order Pillow does not document. \<open>is_getcolors\<close> says when a value is a
  possible result for a pixel buffer.
\<close>

definition pixels :: "rasteriser \<Rightarrow> image \<Rightarrow> rgba list" where
  "pixels ras img =
     concat (map (\<lambda>y. map (\<lambda>x. pixel ras img (x, y)) [0..img_width img - 1])
                 [0..img_height img - 1])"

definition color_counts :: "rgba list \<Rightarrow> (nat \<times> rgba) list" where
  "color_counts ps = map (\<lambda>c. (count_list ps c, c)) (remdups ps)"

definition is_getcolors :: "rgba list \<Rightarrow> nat \<Rightarrow> (nat \<times> rgba) list option \<Rightarrow> bool" where
  "is_getcolors ps maxcolors result =
     (case result of
        None \<Rightarrow> maxcolors < length (remdups ps)
      | Some cs \<Rightarrow> length (remdups ps) \<le> maxcolors \<and> mset cs = mset (color_counts ps))"

text \<open>
  \<^verbatim>\<open>sorted(colors, key=lambda x: x[0], reverse=True)\<close>: a stable sort by falling
  count; entries with equal counts keep their order.
\<close>

definition sorted_reverse :: "(nat \<times> rgba) list \<Rightarrow> (nat \<times> rgba) list" where
  "sorted_reverse cs = rev (sort_key fst (rev cs))"

text \<open>The format \<^verbatim>\<open>02x\<close>: lower-case hexadecimal, zero-padded to two characters.\<close>

definition hex_digit :: "nat \<Rightarrow> char" where
  "hex_digit n = ''0123456789abcdef'' ! (n mod 16)"

fun hex_digits :: "nat \<Rightarrow> string" where
  "hex_digits n = (if n < 16 then [hex_digit n] else hex_digits (n div 16) @ [hex_digit n])"

definition format_02x :: "int \<Rightarrow> string" where
  "format_02x v =
     (let sign = (if v < 0 then ''-'' else []); digits = hex_digits (nat \<bar>v\<bar>)
      in sign @ replicate (2 - length sign - length digits) CHR ''0'' @ digits)"

definition hex_color :: "nat \<times> rgba \<Rightarrow> string" where
  "hex_color entry =
     (case entry of (cnt, (r, g, b, a)) \<Rightarrow>
        ''#'' @ format_02x r @ format_02x g @ format_02x b)"

definition visible :: "nat \<times> rgba \<Rightarrow> bool" where
  "visible entry = (case entry of (cnt, (r, g, b, a)) \<Rightarrow> 0 < a)"

definition extract_color_palette :: "(nat \<times> rgba) list option \<Rightarrow> string list" where
  "extract_color_palette colors =
     (case colors of
        None \<Rightarrow> [''#000000'']
      | Some cs \<Rightarrow>
          if cs = [] then [''#000000'']
          else let top_colors = take 5 (sorted_reverse cs)
               in map hex_color (filter visible top_colors))"

section \<open>Closed forms, sample inputs and the specification's wording\<close>

text \<open>A random source and a rasteriser for the evaluations below.\<close>

definition seed0 :: rng where
  "seed0 = \<lparr>draws = (\<lambda>k. k), used = 0\<rparr>"

definition seed1 :: rng where
  "seed1 = \<lparr>draws = (\<lambda>k. Suc k), used = 0\<rparr>"

definition no_curves :: rasteriser where
  "no_curves c p = None"

text \<open>
  Closed forms of what the loops do. \<open>pick g colors k\<close> is the colour the \<open>k\<close>-th
  choice after the state \<open>g\<close> returns; \<open>advance g n\<close> is the state after \<open>n\<close> choices.
\<close>

definition pick :: "rng \<Rightarrow> rgb list \<Rightarrow> nat \<Rightarrow> rgb" where
  "pick g colors k = colors ! (draws g (used g + k) mod length colors)"

definition advance :: "rng \<Rightarrow> nat \<Rightarrow> rng" where
  "advance g n = g\<lparr>used := used g + n\<rparr>"

text \<open>
  The call the sprite routine makes for a shape name: an ellipse for "circle", a
  rectangle on a square box for "rectangle", none for any other name.
\<close>

definition shape_call :: "string \<Rightarrow> box \<Rightarrow> rgb \<Rightarrow> draw_call list" where
  "shape_call shape b color =
     (if shape = ''circle'' then [Ellipse b color None]
      else if shape = ''rectangle'' then [Rectangle b color]
      else [])"

definition sprite_call ::
  "rng \<Rightarrow> rgb list \<Rightarrow> int \<Rightarrow> int \<Rightarrow> int \<Rightarrow> string list \<Rightarrow> nat \<Rightarrow> draw_call list" where
  "sprite_call g colors center_x center_y size0 shapes k =
     shape_call (shapes ! k) (centered center_x center_y (size0 - 10 * int k)) (pick g colors k)"

text \<open>
  The specification's wording of the same call: an ellipse for "circle", a filled
  square for any other name.
\<close>

definition claimed_shape_call :: "string \<Rightarrow> box \<Rightarrow> rgb \<Rightarrow> draw_call list" where
  "claimed_shape_call shape b color =
     (if shape = ''circle'' then [Ellipse b color None] else [Rectangle b color])"

text \<open>
  Closed forms for the texture routine. \<open>grid n\<close> holds the first \<open>n\<close> multiples of 20, the
  cell origins along one axis; a canvas side of \<open>n\<close> pixels has \<open>cells_across n\<close> cells.
\<close>

definition grid :: "nat \<Rightarrow> int list" where
  "grid n = map (\<lambda>k. 20 * int k) [0..<n]"

definition cells_across :: "int \<Rightarrow> nat" where
  "cells_across n = nat \<lceil>(of_int n :: rat) / 20\<rceil>"

text \<open>The rectangle drawn for the cell at \<open>(i, j)\<close> with the \<open>k\<close>-th colour choice.\<close>

definition cell_call :: "style_config \<Rightarrow> rgb list \<Rightarrow> rng \<Rightarrow> (int \<times> int) \<times> nat \<Rightarrow> draw_call" where
  "cell_call style colors g ck =
     (case ck of ((i, j), k) \<Rightarrow>
        Rectangle (i, j, i + 15, j + 15) (modified_color style (pick g colors k)))"

definition texture_calls :: "style_config \<Rightarrow> rgb list \<Rightarrow> rng \<Rightarrow> int \<Rightarrow> int \<Rightarrow> draw_call list" where
  "texture_calls style colors g width height =
     map (cell_call style colors g)
       (zip (List.product (grid (cells_across width)) (grid (cells_across height)))
            [0..<cells_across width * cells_across height])"

text \<open>A call touches a pixel when it writes a colour there.\<close>

definition touches :: "rasteriser \<Rightarrow> draw_call \<Rightarrow> int \<times> int \<Rightarrow> bool" where
  "touches ras c p = (case paint ras c p of None \<Rightarrow> False | Some color \<Rightarrow> True)"

text \<open>
  The block of a cell as the specification words it, 15 by 15 pixels with a gutter of 5,
  and the block the rectangle call covers, both corners of its box included.
\<close>

definition claimed_block :: "int \<times> int \<Rightarrow> bool" where
  "claimed_block p = (case p of (x, y) \<Rightarrow> x mod 20 < 15 \<and> y mod 20 < 15)"

definition painted_block :: "int \<times> int \<Rightarrow> bool" where
  "painted_block p = (case p of (x, y) \<Rightarrow> x mod 20 \<le> 15 \<and> y mod 20 \<le> 15)"

text \<open>
  Closed forms for the background routine: the second colour of the blend, the colour
  of row \<open>y\<close>, and the line call of that row. \<open>valid_rgb\<close> is the specification's range of
  a channel, 0 to 255.
\<close>

definition second_color :: "rgb list \<Rightarrow> rgb" where
  "second_color colors = (if 1 < length colors then colors ! 1 else colors ! 0)"

definition row_color :: "rgb list \<Rightarrow> int \<Rightarrow> int \<Rightarrow> rgb" where
  "row_color colors height y =
     blend_color (colors ! 0) (second_color colors) (fl (of_int y / of_int height))"

definition row_line :: "rgb list \<Rightarrow> int \<Rightarrow> int \<Rightarrow> int \<Rightarrow> draw_call" where
  "row_line colors width height y = Line (0, y) (width, y) (row_color colors height y)"

definition valid_rgb :: "rgb \<Rightarrow> bool" where
  "valid_rgb c = (case c of (r, g, b) \<Rightarrow>
     0 \<le> r \<and> r \<le> 255 \<and> 0 \<le> g \<and> g \<le> 255 \<and> 0 \<le> b \<and> b \<le> 255)"

text \<open>
  The specification's wording of the summary: the transparent colours are left out
  before the five most frequent are taken.
\<close>

definition claimed_palette :: "(nat \<times> rgba) list \<Rightarrow> string list" where
  "claimed_palette cs = map hex_color (take 5 (sorted_reverse (filter visible cs)))"

text \<open>A fresh canvas of one pixel, and the order of a list of counts that fall.\<close>

definition blank1 :: image where
  "blank1 = \<lparr>img_width = 1, img_height = 1, img_color = (255, 255, 255, 0), img_draw = []\<rparr>"

definition falling :: "(nat \<times> rgba) list \<Rightarrow> bool" where
  "falling cs = sorted_wrt (\<lambda>a b. fst b \<le> fst a) cs"

text \<open>A result of a drawing routine with the random source replaced.\<close>

definition with_rng :: "rng \<Rightarrow> py_error + (rng \<times> draw) \<Rightarrow> py_error + (rng \<times> draw)" where
  "with_rng g r = map_sum id (\<lambda>(g', d). (g, d)) r"

section \<open>Substring search\<close>

lemma starts_with_prefix: "starts_with n h \<longleftrightarrow> (\<exists>after. h = n @ after)"
  by (induction n h rule: starts_with.induct) auto

lemma py_in_split: "py_in n h \<longleftrightarrow> (\<exists>before after. h = before @ n @ after)"
proof (induction h)
  case Nil
  then show ?case by simp
next
  case (Cons c h)
  show ?case
  proof
    assume "py_in n (c # h)"
    then consider "starts_with n (c # h)" | "py_in n h" by auto
    then show "\<exists>before after. c # h = before @ n @ after"
    proof cases
      case 1
      then obtain after where "c # h = n @ after" by (auto simp: starts_with_prefix)
      then have "c # h = [] @ n @ after" by simp
      then show ?thesis by blast
    next
      case 2
      then obtain before after where "h = before @ n @ after" using Cons.IH by blast
      then have "c # h = (c # before) @ n @ after" by simp
      then show ?thesis by blast
    qed
  next
    assume "\<exists>before after. c # h = before @ n @ after"
    then obtain before after where s: "c # h = before @ n @ after" by blast
    show "py_in n (c # h)"
    proof (cases before)
      case Nil
      with s have "starts_with n (c # h)" by (auto simp: starts_with_prefix)
      then show ?thesis by simp
    next
      case (Cons b bs)
      with s have "h = bs @ n @ after" by simp
      then have "py_in n h" using Cons.IH by blast
      then show ?thesis by simp
    qed
  qed
qed

lemma py_in_occurs: "py_in name (lower prompt) \<longleftrightarrow> occurs_ci name prompt"
  by (simp add: py_in_split occurs_ci_def)

lemma color_loop_filter:
  "color_loop tbl p found = found @ map snd (filter (\<lambda>(name, c). py_in name p) tbl)"
  by (induction tbl p found rule: color_loop.induct) auto

section \<open>The backend router selects by preference and credentials\<close>

text \<open>
  Claim C9. The router calls the requested backend (DALL-E or Stable Diffusion) when
  that backend's key is configured; otherwise it calls DALL-E when its key is
  configured, else Stable Diffusion when its key is configured; and it reaches the
  procedural generator exactly when neither key is configured.
\<close>

theorem route_policy:
  "(pref = ''dalle'' \<and> configured ok \<longrightarrow> generate_asset_route pref ok sk = DallE) \<and>
   (pref = ''stable_diffusion'' \<and> configured sk \<longrightarrow>
      generate_asset_route pref ok sk = StableDiffusion) \<and>
   (\<not> (pref = ''dalle'' \<and> configured ok) \<and> \<not> (pref = ''stable_diffusion'' \<and> configured sk) \<longrightarrow>
      generate_asset_route pref ok sk =
        (if configured ok then DallE
         else if configured sk then StableDiffusion else ProceduralFallback)) \<and>
   (generate_asset_route pref ok sk = ProceduralFallback \<longleftrightarrow>
      \<not> configured ok \<and> \<not> configured sk)"
  by (simp add: generate_asset_route_def)

theorem route_policy_witness:
  "generate_asset_route ''stable_diffusion'' (Some ''sk-1'') (Some ''st-2'') = StableDiffusion \<and>
   generate_asset_route ''dalle'' (Some ''sk-1'') (Some ''st-2'') = DallE \<and>
   generate_asset_route ''stable_diffusion'' (Some ''sk-1'') None = DallE \<and>
   generate_asset_route ''dalle'' None (Some ''st-2'') = StableDiffusion \<and>
   generate_asset_route ''other'' (Some ''sk-1'') (Some ''st-2'') = DallE \<and>
   generate_asset_route ''dalle'' None (Some []) = ProceduralFallback"
  using route_policy [of "''stable_diffusion''" "Some ''sk-1''" "Some ''st-2''"]
    route_policy [of "''dalle''" "Some ''sk-1''" "Some ''st-2''"]
    route_policy [of "''stable_diffusion''" "Some ''sk-1''" None]
    route_policy [of "''dalle''" None "Some ''st-2''"]
    route_policy [of "''other''" "Some ''sk-1''" "Some ''st-2''"]
    route_policy [of "''dalle''" None "Some []"]
  by (simp add: configured_def)

section \<open>The colour extractor returns the matched table colours in table order\<close>

text \<open>
  Claim C8. For every prompt the colour extractor returns the colours of exactly the
  table names that occur in the prompt, letter case ignored, in the order of the table
  and without removing duplicates, or the three default colours, in their order, when
  no table name occurs. In particular a prompt in which "red" occurs yields a palette
  that contains (255, 0, 0).
\<close>

theorem analyze_prompt_colors_spec:
  "analyze_prompt_colors prompt =
     (if matched_colors prompt = []
      then [(100, 150, 200), (200, 100, 150), (150, 200, 100)]
      else matched_colors prompt) \<and>
   (occurs_ci ''red'' prompt \<longrightarrow> (255, 0, 0) \<in> set (analyze_prompt_colors prompt)) \<and>
   ((\<forall>name \<in> set (map fst color_keywords). \<not> occurs_ci name prompt) \<longrightarrow>
      analyze_prompt_colors prompt = [(100, 150, 200), (200, 100, 150), (150, 200, 100)])"
proof -
  have loop: "color_loop color_keywords (lower prompt) [] = matched_colors prompt"
    by (simp add: color_loop_filter matched_colors_def py_in_occurs)
  have eq: "analyze_prompt_colors prompt =
     (if matched_colors prompt = [] then default_colors else matched_colors prompt)"
    by (simp add: analyze_prompt_colors_def loop)
  have red: "(255, 0, 0) \<in> set (matched_colors prompt)" if "occurs_ci ''red'' prompt"
    using that by (simp add: matched_colors_def color_keywords_def)
  have none: "matched_colors prompt = []"
    if "\<forall>name \<in> set (map fst color_keywords). \<not> occurs_ci name prompt"
    using that by (auto simp: matched_colors_def filter_empty_conv)
  show ?thesis
  proof (intro conjI impI)
    show "analyze_prompt_colors prompt =
       (if matched_colors prompt = []
        then [(100, 150, 200), (200, 100, 150), (150, 200, 100)]
        else matched_colors prompt)"
      by (simp add: eq default_colors_def)
    show "(255, 0, 0) \<in> set (analyze_prompt_colors prompt)" if "occurs_ci ''red'' prompt"
      using red [OF that] by (auto simp: eq)
    show "analyze_prompt_colors prompt = [(100, 150, 200), (200, 100, 150), (150, 200, 100)]"
      if "\<forall>name \<in> set (map fst color_keywords). \<not> occurs_ci name prompt"
      using none [OF that] by (simp add: eq default_colors_def)
  qed
qed

theorem analyze_prompt_colors_spec_witness:
  "occurs_ci ''red'' ''A Red dragon in blue fog'' \<and>
   (255, 0, 0) \<in> set (analyze_prompt_colors ''A Red dragon in blue fog'') \<and>
   analyze_prompt_colors ''A Red dragon in blue fog'' = [(255, 0, 0), (0, 0, 255)] \<and>
   analyze_prompt_colors ''medieval castle'' = [(100, 150, 200), (200, 100, 150), (150, 200, 100)]"
proof -
  have occ: "occurs_ci ''red'' ''A Red dragon in blue fog''"
    unfolding py_in_occurs [symmetric] by code_simp
  have val: "analyze_prompt_colors ''A Red dragon in blue fog'' = [(255, 0, 0), (0, 0, 255)]"
    by code_simp
  have dflt: "analyze_prompt_colors ''medieval castle'' = [(100, 150, 200), (200, 100, 150), (150, 200, 100)]"
    by code_simp
  from analyze_prompt_colors_spec [of "''A Red dragon in blue fog''"] occ
  have "(255, 0, 0) \<in> set (analyze_prompt_colors ''A Red dragon in blue fog'')" by blast
  with occ val dflt show ?thesis by blast
qed

section \<open>An unrecognised asset type leaves the canvas untouched\<close>

text \<open>
  Claim C6. For every asset type other than "texture", "sprite", "icon" and
  "background", and positive width and height, the procedural asset creation raises
  nothing and returns an image of that width and height on which nothing was drawn:
  every pixel has alpha 0.
\<close>

theorem unknown_category_transparent:
  assumes "asset_type \<notin> {''texture'', ''sprite'', ''icon'', ''background''}"
    and "0 < width" and "0 < height"
  shows "\<exists>img. create_procedural_asset g prompt asset_type style width height = Inr (img, g) \<and>
           img_width img = width \<and> img_height img = height \<and> img_draw img = [] \<and>
           (\<forall>x y. 0 \<le> x \<and> x < width \<and> 0 \<le> y \<and> y < height \<longrightarrow>
              alpha (pixel ras img (x, y)) = 0)"
  using assms by (simp add: create_procedural_asset_def image_new_def pixel_def alpha_def)

theorem unknown_category_transparent_witness:
  "create_procedural_asset seed0 ''test prompt'' ''invalid_type'' ''realistic'' 256 256 =
     Inr (\<lparr>img_width = 256, img_height = 256, img_color = (255, 255, 255, 0), img_draw = []\<rparr>,
          seed0) \<and>
   alpha (pixel no_curves
     \<lparr>img_width = 256, img_height = 256, img_color = (255, 255, 255, 0), img_draw = []\<rparr>
     (17, 200)) = 0"
proof -
  have "''invalid_type'' \<notin> {''texture'', ''sprite'', ''icon'', ''background''}" by simp
  from unknown_category_transparent
    [OF this, of 256 256 seed0 "''test prompt''" "''realistic''" no_curves]
  obtain img where
    r: "create_procedural_asset seed0 ''test prompt'' ''invalid_type'' ''realistic'' 256 256 =
          Inr (img, seed0)"
    and w: "img_width img = 256" and h: "img_height img = 256" and d: "img_draw img = []"
    and px: "\<forall>x y. 0 \<le> x \<and> x < 256 \<and> 0 \<le> y \<and> y < 256 \<longrightarrow>
               alpha (pixel no_curves img (x, y)) = 0"
    by auto
  have c: "img_color img = (255, 255, 255, 0)"
    using r by (auto simp: create_procedural_asset_def image_new_def)
  have "img = \<lparr>img_width = 256, img_height = 256, img_color = (255, 255, 255, 0), img_draw = []\<rparr>"
    using w h d c by simp
  with r px show ?thesis by simp
qed

section \<open>The icon on a palette of one colour\<close>

lemma centered_ordered: "0 \<le> s \<Longrightarrow> ordered (centered cx cy s)"
  by (simp add: ordered_def centered_def)

text \<open>
  Claim C3, as the specification states it, fails: on the palette [(255, 0, 0)] at
  64 by 64 the inner square is not filled with (255, 0, 0).
\<close>

theorem icon_inner_square_counterexample:
  "generate_icon (seed0, []) 64 64 [(255, 0, 0)] realistic \<noteq>
     Inr (seed0, [Ellipse (11, 11, 53, 53) (255, 0, 0) (Some (255, 0, 0)),
                  Rectangle (22, 22, 42, 42) (255, 0, 0)])"
  by (simp add: generate_icon_def py_index_def second_or_def draw_ellipse_def draw_rectangle_def
      Let_def centered_def ordered_def)

text \<open>
  Claim C3, amended. On a palette of one colour the icon routine outlines the circle
  with that colour, and fills the inner square with white, (255, 255, 255): the
  fallback of the outline is the first colour, the fallback of the inner square is
  white. At 64 by 64 on [(255, 0, 0)]: the circle has fill and outline (255, 0, 0) and
  the inner square is white.
\<close>

theorem icon_single_color:
  assumes "0 \<le> width" and "0 \<le> height"
  shows "generate_icon (g, d) width height [c] style =
     Inr (g, d @ [Ellipse (centered (width div 2) (height div 2) (min width height div 3))
                    c (Some c),
                  Rectangle (centered (width div 2) (height div 2) (min width height div 3 div 2))
                    (255, 255, 255)])"
proof -
  have s: "0 \<le> min width height div 3" using assms by simp
  then have s2: "0 \<le> min width height div 3 div 2" by simp
  show ?thesis
    using centered_ordered [OF s] centered_ordered [OF s2]
    by (simp add: generate_icon_def py_index_def second_or_def draw_ellipse_def
        draw_rectangle_def Let_def)
qed

theorem icon_single_color_witness:
  "generate_icon (seed0, []) 64 64 [(255, 0, 0)] realistic =
     Inr (seed0, [Ellipse (11, 11, 53, 53) (255, 0, 0) (Some (255, 0, 0)),
                  Rectangle (22, 22, 42, 42) (255, 255, 255)])"
  using icon_single_color [of 64 64 seed0 "[]" "(255, 0, 0)" realistic]
  by (simp add: centered_def)

section \<open>The sprite routine\<close>

lemma random_choice_pick:
  "colors \<noteq> [] \<Longrightarrow> random_choice g colors = Inr (pick g colors 0, advance g 1)"
  by (simp add: random_choice_def pick_def advance_def)

lemma pick_advance: "pick (advance g n) colors k = pick g colors (n + k)"
  by (simp add: pick_def advance_def add.assoc)

lemma advance_advance: "advance (advance g m) n = advance g (m + n)"
  by (simp add: advance_def add.assoc)

lemma advance_0: "advance g 0 = g"
  by (simp add: advance_def)

lemma map_upt_shift: "map f [0..<Suc n] = f 0 # map (\<lambda>k. f (Suc k)) [0..<n]"
  by (simp only: map_upt_Suc)

lemma sprite_call_Cons:
  "sprite_call g colors cx cy s (sh # rest) (Suc k) =
   sprite_call (advance g 1) colors cx cy (s - 10) rest k"
  by (simp add: sprite_call_def pick_advance algebra_simps)

lemma sprite_loop_calls:
  assumes "colors \<noteq> []"
    and "\<forall>k<length shs. shs ! k \<in> {''circle'', ''rectangle''} \<longrightarrow> 10 * int k \<le> s"
  shows "sprite_loop colors cx cy shs s (g, d) =
     Inr (advance g (length shs),
          d @ concat (map (sprite_call g colors cx cy s shs) [0..<length shs]))"
  using assms(2)
proof (induction shs arbitrary: s g d)
  case Nil
  then show ?case by (simp add: advance_0)
next
  case (Cons sh rest)
  from Cons.prems have s0: "sh \<in> {''circle'', ''rectangle''} \<Longrightarrow> 0 \<le> s" by auto
  have rest: "\<forall>k<length rest. rest ! k \<in> {''circle'', ''rectangle''} \<longrightarrow>
      10 * int k \<le> s - 10"
  proof (intro allI impI)
    fix k assume k: "k < length rest" and sh: "rest ! k \<in> {''circle'', ''rectangle''}"
    from Cons.prems k sh have "10 * int (Suc k) \<le> s"
      by (auto simp del: of_nat_Suc)
    then show "10 * int k \<le> s - 10" by simp
  qed
  have ord: "sh \<in> {''circle'', ''rectangle''} \<Longrightarrow> ordered (centered cx cy s)"
    by (rule centered_ordered [OF s0])
  have first: "(if sh = ''circle'' then draw_ellipse d (centered cx cy s) (pick g colors 0) None
        else if sh = ''rectangle'' then draw_rectangle d (centered cx cy s) (pick g colors 0)
        else Inr d) = Inr (d @ sprite_call g colors cx cy s (sh # rest) 0)"
    using ord by (simp add: draw_ellipse_def draw_rectangle_def sprite_call_def shape_call_def)
  show ?case
    by (simp add: random_choice_pick [OF assms(1)] first Cons.IH [OF rest] advance_advance
        map_upt_shift sprite_call_Cons del: upt_Suc)
qed

text \<open>
  When a processed shape named "circle" or "rectangle" has a negative half-extent, its
  box is not ordered and the loop raises \<open>ValueError\<close>.
\<close>

lemma sprite_loop_raises:
  assumes "colors \<noteq> []"
    and "\<exists>k<length shs. shs ! k \<in> {''circle'', ''rectangle''} \<and> s < 10 * int k"
  shows "sprite_loop colors cx cy shs s (g, d) = Inl ValueError"
  using assms(2)
proof (induction shs arbitrary: s g d)
  case Nil
  then show ?case by simp
next
  case (Cons sh rest)
  show ?case
  proof (cases "sh \<in> {''circle'', ''rectangle''} \<and> s < 0")
    case True
    then have "\<not> ordered (centered cx cy s)" by (simp add: ordered_def centered_def)
    with True show ?thesis
      by (auto simp add: random_choice_pick [OF assms(1)] draw_ellipse_def draw_rectangle_def)
  next
    case False
    from Cons.prems obtain k where k: "k < length (sh # rest)"
      "(sh # rest) ! k \<in> {''circle'', ''rectangle''}" "s < 10 * int k" by blast
    from False k have "k \<noteq> 0" by (cases k) auto
    then obtain j where j: "k = Suc j" by (cases k) auto
    from k j have "\<exists>k<length rest. rest ! k \<in> {''circle'', ''rectangle''} \<and>
        s - 10 < 10 * int k"
      by (intro exI [of _ j]) auto
    note IH = Cons.IH [OF this]
    from False have ord: "sh \<in> {''circle'', ''rectangle''} \<Longrightarrow> ordered (centered cx cy s)"
      by (auto intro: centered_ordered)
    have first: "(if sh = ''circle'' then draw_ellipse d (centered cx cy s) (pick g colors 0) None
        else if sh = ''rectangle'' then draw_rectangle d (centered cx cy s) (pick g colors 0)
        else Inr d) = Inr (d @ sprite_call g colors cx cy s (sh # rest) 0)"
      using ord by (simp add: draw_ellipse_def draw_rectangle_def sprite_call_def shape_call_def)
    show ?thesis
      by (simp add: random_choice_pick [OF assms(1)] first IH)
  qed
qed

lemma shapes_square: "analyze_prompt_shapes ''red square'' = [''square'']"
  by code_simp

lemma colors_red_square: "analyze_prompt_colors ''red square'' = [(255, 0, 0)]"
  by code_simp

lemma style_realistic: "style_get ''realistic'' = realistic"
  by (simp add: style_get_def style_presets_def)

text \<open>
  Claim C1, as the specification states it, fails: for the shape name "square" the
  sprite routine draws nothing, where the claim has a filled square. The prompt
  "red square" gives the palette [(255, 0, 0)] and the shape set ["square"].
\<close>

theorem sprite_square_counterexample:
  "create_procedural_asset seed0 ''red square'' ''sprite'' ''realistic'' 64 64 =
     Inr (\<lparr>img_width = 64, img_height = 64, img_color = (255, 255, 255, 0), img_draw = []\<rparr>,
          advance seed0 1) \<and>
   claimed_shape_call ''square'' (centered 32 32 21) (255, 0, 0) =
     [Rectangle (11, 11, 53, 53) (255, 0, 0)]"
  by (simp add: create_procedural_asset_def image_new_def shapes_square colors_red_square
      style_realistic generate_sprite_def random_choice_def advance_def seed0_def
      claimed_shape_call_def pick_def centered_def)

text \<open>
  Claim C1, amended. For a non-empty palette, and a canvas on which every processed
  shape named "circle" or "rectangle" has a non-negative half-extent (10 k is at most
  min(width, height) div 3 for the \<open>k\<close>-th processed shape when it has one of these two
  names; shapes of any other name put no condition on the canvas), the sprite routine
  processes the first 3 shapes of the shape set only. For the \<open>k\<close>-th of them it takes
  the next colour of the random source from the palette and draws, centred on
  (width div 2, height div 2) with half-extent min(width, height) div 3 - 10 k, a
  filled ellipse when the name is "circle", a filled square when the name is
  "rectangle", and nothing for any other name; the colour is taken and the half-extent
  shrinks for every processed shape, drawn or not. Shapes beyond the third are ignored.
\<close>

theorem generate_sprite_calls:
  assumes "colors \<noteq> []"
    and "\<forall>k<min 3 (length shapes). shapes ! k \<in> {''circle'', ''rectangle''} \<longrightarrow>
           10 * int k \<le> min width height div 3"
  shows "generate_sprite (g, d) width height colors shapes style =
     Inr (advance g (min 3 (length shapes)),
          d @ concat (map (sprite_call g colors (width div 2) (height div 2)
                             (min width height div 3) shapes)
                        [0..<min 3 (length shapes)])) \<and>
   generate_sprite (g, d) width height colors shapes style =
     generate_sprite (g, d) width height colors (take 3 shapes) style"
proof -
  have len: "length (take 3 shapes) = min 3 (length shapes)" by simp
  have same: "map (sprite_call g colors (width div 2) (height div 2) (min width height div 3)
                 (take 3 shapes)) [0..<min 3 (length shapes)] =
              map (sprite_call g colors (width div 2) (height div 2) (min width height div 3)
                 shapes) [0..<min 3 (length shapes)]"
    by (rule map_cong) (auto simp: sprite_call_def)
  have "\<forall>k<length (take 3 shapes). take 3 shapes ! k \<in> {''circle'', ''rectangle''} \<longrightarrow>
           10 * int k \<le> min width height div 3"
    using assms(2) by simp
  from sprite_loop_calls [OF assms(1) this]
  have loop: "sprite_loop colors (width div 2) (height div 2) (take 3 shapes)
       (min width height div 3) (g, d) =
     Inr (advance g (min 3 (length shapes)),
          d @ concat (map (sprite_call g colors (width div 2) (height div 2)
                             (min width height div 3) shapes)
                        [0..<min 3 (length shapes)]))"
    by (simp only: len same)
  show ?thesis
    by (simp add: generate_sprite_def loop)
qed

theorem generate_sprite_calls_witness:
  "generate_sprite (seed0, []) 64 64 [(255, 0, 0), (0, 0, 255)]
       [''circle'', ''square'', ''rectangle'', ''star''] realistic =
     Inr (advance seed0 3,
          [Ellipse (11, 11, 53, 53) (255, 0, 0) None, Rectangle (31, 31, 33, 33) (255, 0, 0)]) \<and>
   generate_sprite (seed0, []) 16 16 [(255, 0, 0), (0, 0, 255)]
       [''circle'', ''square'', ''star'', ''rectangle''] realistic =
     Inr (advance seed0 3, [Ellipse (3, 3, 13, 13) (255, 0, 0) None])"
proof -
  have "generate_sprite (seed0, []) 64 64 [(255, 0, 0), (0, 0, 255)]
       [''circle'', ''square'', ''rectangle'', ''star''] realistic =
     Inr (advance seed0 (min 3 (length [''circle'', ''square'', ''rectangle'', ''star''])),
          [] @ concat (map (sprite_call seed0 [(255, 0, 0), (0, 0, 255)] (64 div 2) (64 div 2)
                             (min 64 64 div 3) [''circle'', ''square'', ''rectangle'', ''star''])
                        [0..<min 3 (length [''circle'', ''square'', ''rectangle'', ''star''])]))"
    using generate_sprite_calls [of "[(255, 0, 0), (0, 0, 255)]"
        "[''circle'', ''square'', ''rectangle'', ''star'']" 64 64 seed0 "[]" realistic]
    by (simp add: numeral_3_eq_3 less_Suc_eq)
  also have "\<dots> = Inr (advance seed0 3,
          [Ellipse (11, 11, 53, 53) (255, 0, 0) None, Rectangle (31, 31, 33, 33) (255, 0, 0)])"
    by (simp add: sprite_call_def shape_call_def pick_def seed0_def centered_def
        upt_rec [of 0] numeral_3_eq_3)
  finally have large: "generate_sprite (seed0, []) 64 64 [(255, 0, 0), (0, 0, 255)]
       [''circle'', ''square'', ''rectangle'', ''star''] realistic =
     Inr (advance seed0 3,
          [Ellipse (11, 11, 53, 53) (255, 0, 0) None, Rectangle (31, 31, 33, 33) (255, 0, 0)])" .
  have "generate_sprite (seed0, []) 16 16 [(255, 0, 0), (0, 0, 255)]
       [''circle'', ''square'', ''star'', ''rectangle''] realistic =
     Inr (advance seed0 (min 3 (length [''circle'', ''square'', ''star'', ''rectangle''])),
          [] @ concat (map (sprite_call seed0 [(255, 0, 0), (0, 0, 255)] (16 div 2) (16 div 2)
                             (min 16 16 div 3) [''circle'', ''square'', ''star'', ''rectangle''])
                        [0..<min 3 (length [''circle'', ''square'', ''star'', ''rectangle''])]))"
    using generate_sprite_calls [of "[(255, 0, 0), (0, 0, 255)]"
        "[''circle'', ''square'', ''star'', ''rectangle'']" 16 16 seed0 "[]" realistic]
    by (simp add: numeral_3_eq_3 less_Suc_eq)
  also have "\<dots> = Inr (advance seed0 3, [Ellipse (3, 3, 13, 13) (255, 0, 0) None])"
    by (simp add: sprite_call_def shape_call_def pick_def seed0_def centered_def
        upt_rec [of 0] numeral_3_eq_3)
  finally show ?thesis using large by simp
qed

section \<open>Ranges\<close>

lemma div_step_up:
  fixes x step :: int
  assumes "0 < step"
  shows "(x + step - 1) div step = (x - 1) div step + 1"
proof -
  have "((x - 1) + step) div step = (x - 1) div step + 1"
    using assms by simp
  moreover have "(x - 1) + step = x + step - 1" by simp
  ultimately show ?thesis by simp
qed

lemma py_range_upt:
  "0 < step \<Longrightarrow>
   py_range a b step = map (\<lambda>k. a + step * int k) [0..<nat ((b - a + step - 1) div step)]"
proof (induction a b step rule: py_range.induct)
  case (1 a b step)
  show ?case
  proof (cases "a < b")
    case True
    have c: "b - (a + step) + step - 1 = b - a - 1" by simp
    have IH: "py_range (a + step) b step =
        map (\<lambda>k. a + step + step * int k) [0..<nat ((b - a - 1) div step)]"
      using 1 True by (simp only: c)
    have "0 \<le> (b - a - 1) div step"
      using True 1(2) by (simp add: pos_imp_zdiv_nonneg_iff)
    then have n: "nat ((b - a + step - 1) div step) = Suc (nat ((b - a - 1) div step))"
      using div_step_up [OF 1(2), of "b - a"] by simp
    have "py_range a b step = a # py_range (a + step) b step"
      using True 1(2) by (subst py_range.simps) simp
    then show ?thesis
      by (simp only: IH n map_upt_shift) (simp add: algebra_simps)
  next
    case False
    have "(b - a + step - 1) div step \<le> 0"
    proof (cases "0 \<le> b - a + step - 1")
      case True
      then have "(b - a + step - 1) div step = 0"
        using False by (simp add: div_pos_pos_trivial)
      then show ?thesis by simp
    next
      case neg: False
      then have "(b - a + step - 1) div step < 0"
        using 1(2) by (simp add: div_neg_pos_less0)
      then show ?thesis by simp
    qed
    moreover have "py_range a b step = []"
      using False by (subst py_range.simps) simp
    ultimately show ?thesis by simp
  qed
qed

lemma neg_div20: "- (- n div 20) = (n + 19) div (20::int)"
proof -
  define q r where "q = n div 20" and "r = n mod 20"
  have n: "n = 20 * q + r" and r: "0 \<le> r" "r < 20"
    by (simp_all add: q_def r_def)
  have up: "(n + 19) div 20 = q + (r + 19) div 20"
    unfolding n by (simp add: add.assoc)
  have dn: "- n div 20 = - q + (- r) div 20"
    unfolding n by (simp add: algebra_simps)
  show ?thesis
  proof (cases "r = 0")
    case True
    then show ?thesis by (simp add: up dn)
  next
    case False
    with r have "(r + 19) div 20 = 1" "(- r) div 20 = - 1"
      by (auto simp: div_pos_pos_trivial zdiv_zminus1_eq_if intro: div_pos_geq [THEN trans])
    then show ?thesis by (simp add: up dn)
  qed
qed

lemma ceil20: "\<lceil>(of_int n :: rat) / 20\<rceil> = (n + 19) div 20"
proof -
  have "\<lceil>(of_int n :: rat) / of_int 20\<rceil> = - (- n div 20)"
    by (rule ceiling_divide_eq_div)
  then show ?thesis by (simp add: neg_div20)
qed

lemma py_range_grid: "py_range 0 n 20 = grid (cells_across n)"
  by (simp add: py_range_upt grid_def cells_across_def ceil20 add.commute)

lemma py_range_rows: "py_range 0 n 1 = map int [0..<nat n]"
  by (simp add: py_range_upt)

section \<open>The texture routine\<close>

lemma texture_column_calls:
  assumes "colors \<noteq> []"
  shows "texture_column colors style i js (advance g m, d) =
     Inr (advance g (m + length js),
          d @ map (cell_call style colors g) (zip (map (Pair i) js) [m..<m + length js]))"
proof (induction js arbitrary: m d)
  case Nil
  then show ?case by simp
next
  case (Cons j js)
  have ch: "random_choice (advance g m) colors = Inr (pick g colors m, advance g (Suc m))"
    using random_choice_pick [OF assms, of "advance g m"]
    by (simp add: pick_advance advance_advance)
  have dr: "draw_rectangle d (i, j, i + 15, j + 15) c =
      Inr (d @ [Rectangle (i, j, i + 15, j + 15) c])" for c
    by (simp add: draw_rectangle_def ordered_def)
  have "m < m + length (j # js)" by simp
  from upt_conv_Cons [OF this]
  have up: "[m..<m + length (j # js)] = m # [Suc m..<Suc m + length js]"
    by simp
  show ?case
    by (simp only: up) (simp add: ch dr Cons.IH cell_call_def)
qed

lemma texture_columns_calls:
  assumes "colors \<noteq> []"
  shows "texture_columns colors style height is (advance g m, d) =
     Inr (advance g (m + length is * length (py_range 0 height 20)),
          d @ map (cell_call style colors g)
                (zip (List.product is (py_range 0 height 20))
                     [m..<m + length is * length (py_range 0 height 20)]))"
proof (induction "is" arbitrary: m d)
  case Nil
  then show ?case by simp
next
  case (Cons i "is")
  let ?js = "py_range 0 height 20"
  let ?n = "length ?js"
  have up: "[m..<m + length (i # is) * ?n] = [m..<m + ?n] @ [m + ?n..<m + ?n + length is * ?n]"
    using upt_add_eq_append [of m "m + ?n" "length is * ?n"] by (simp add: add.assoc)
  have zp: "zip (List.product (i # is) ?js) ([m..<m + ?n] @ [m + ?n..<m + ?n + length is * ?n]) =
      zip (map (Pair i) ?js) [m..<m + ?n] @
      zip (List.product is ?js) [m + ?n..<m + ?n + length is * ?n]"
    by (simp add: zip_append)
  show ?case
    by (simp only: up zp)
      (simp add: texture_column_calls [OF assms] Cons.IH add.assoc)
qed

lemma generate_texture_calls:
  assumes "colors \<noteq> []"
  shows "generate_texture (g, d) width height colors style =
     Inr (advance g (cells_across width * cells_across height),
          d @ map (cell_call style colors g)
                (zip (List.product (grid (cells_across width)) (grid (cells_across height)))
                     [0..<cells_across width * cells_across height]))"
  using texture_columns_calls [OF assms, of style height "py_range 0 width 20" g 0 d]
  by (simp add: generate_texture_def advance_0 py_range_grid grid_def)

text \<open>Which pixels the calls of the texture routine touch.\<close>

lemma alpha_tuple: "alpha (r, g, b, a) = a"
  by (simp add: alpha_def)

lemma alpha_ink: "alpha (ink c) = 255"
  by (cases c) (simp add: alpha_def ink_def)

lemma alpha_pixel_after:
  "alpha (pixel_after ras cs p cur) =
     (if \<exists>c \<in> set cs. touches ras c p then 255 else alpha cur)"
proof (induction cs arbitrary: cur)
  case Nil
  then show ?case by simp
next
  case (Cons c cs)
  show ?case
  proof (cases "paint ras c p")
    case None
    then have "\<not> touches ras c p" by (simp add: touches_def)
    then show ?thesis using None by (simp add: Cons.IH)
  next
    case (Some col)
    then have t: "touches ras c p" by (simp add: touches_def)
    have "alpha (pixel_after ras cs p (ink col)) = 255"
      by (simp only: Cons.IH alpha_ink if_cancel)
    then show ?thesis using Some t by simp
  qed
qed

lemma grid_cover:
  assumes "0 \<le> x" and "x < w"
  shows "(\<exists>i \<in> set (grid (cells_across w)). i \<le> x \<and> x \<le> i + 15) \<longleftrightarrow> x mod 20 \<le> 15"
proof
  assume "\<exists>i \<in> set (grid (cells_across w)). i \<le> x \<and> x \<le> i + 15"
  then obtain k where "20 * int k \<le> x" "x \<le> 20 * int k + 15"
    by (auto simp: grid_def)
  have "(x - 20 * int k + int k * 20) mod 20 = (x - 20 * int k) mod 20"
    by (rule mod_mult_self1)
  then have "x mod 20 = (x - 20 * int k) mod 20" by simp
  also have "\<dots> = x - 20 * int k"
    using \<open>20 * int k \<le> x\<close> \<open>x \<le> 20 * int k + 15\<close> by (intro mod_pos_pos_trivial) simp_all
  finally have "x mod 20 = x - 20 * int k" .
  then show "x mod 20 \<le> 15" using \<open>x \<le> 20 * int k + 15\<close> by simp
next
  assume m: "x mod 20 \<le> 15"
  let ?k = "nat (x div 20)"
  have q: "0 \<le> x div 20" using assms(1) by (simp add: pos_imp_zdiv_nonneg_iff)
  have "x div 20 < (w + 19) div 20"
  proof -
    have "x + 20 \<le> w + 19" using assms(2) by simp
    then have "(x + 20) div 20 \<le> (w + 19) div 20" by (rule zdiv_mono1) simp
    then show ?thesis by simp
  qed
  then have lt: "?k < cells_across w"
    using q by (simp add: cells_across_def ceil20 nat_less_iff)
  have x: "x = 20 * (x div 20) + x mod 20" by simp
  have "0 \<le> x mod 20" by simp
  then have "20 * (x div 20) \<le> x \<and> x \<le> 20 * (x div 20) + 15"
    using m x by linarith
  then have "20 * int ?k \<le> x \<and> x \<le> 20 * int ?k + 15"
    using q by simp
  moreover have "20 * int ?k \<in> set (grid (cells_across w))"
    unfolding grid_def set_map set_upt using lt by (intro imageI) simp
  ultimately show "\<exists>i \<in> set (grid (cells_across w)). i \<le> x \<and> x \<le> i + 15" by blast
qed

lemma touches_cell:
  "touches ras (cell_call style colors g ((i, j), k)) (x, y) \<longleftrightarrow>
     i \<le> x \<and> x \<le> i + 15 \<and> j \<le> y \<and> y \<le> j + 15"
  by (simp add: touches_def cell_call_def)

lemma texture_cover:
  assumes "0 \<le> x" "x < width" "0 \<le> y" "y < height"
  shows "(\<exists>c \<in> set (map (cell_call style colors g)
                (zip (List.product (grid (cells_across width)) (grid (cells_across height)))
                     [0..<cells_across width * cells_across height])). touches ras c (x, y))
     \<longleftrightarrow> painted_block (x, y)"
proof -
  let ?cells = "List.product (grid (cells_across width)) (grid (cells_across height))"
  let ?idx = "[0..<cells_across width * cells_across height]"
  have len: "length ?cells = length ?idx" by (simp add: grid_def)
  have fst: "map fst (zip ?cells ?idx) = ?cells" using len by (rule map_fst_zip)
  have "(\<exists>c \<in> set (map (cell_call style colors g) (zip ?cells ?idx)). touches ras c (x, y)) \<longleftrightarrow>
        (\<exists>ck \<in> set (zip ?cells ?idx). touches ras (cell_call style colors g ck) (x, y))"
    by simp
  also have "\<dots> \<longleftrightarrow> (\<exists>ck \<in> set (zip ?cells ?idx).
        fst (fst ck) \<le> x \<and> x \<le> fst (fst ck) + 15 \<and> snd (fst ck) \<le> y \<and> y \<le> snd (fst ck) + 15)"
    by (intro bex_cong refl) (auto simp: touches_cell)
  also have "\<dots> \<longleftrightarrow> (\<exists>ij \<in> set (map fst (zip ?cells ?idx)).
        fst ij \<le> x \<and> x \<le> fst ij + 15 \<and> snd ij \<le> y \<and> y \<le> snd ij + 15)"
    by (simp only: set_map bex_simps(7))
  also have "\<dots> \<longleftrightarrow> (\<exists>i \<in> set (grid (cells_across width)). i \<le> x \<and> x \<le> i + 15) \<and>
        (\<exists>j \<in> set (grid (cells_across height)). j \<le> y \<and> y \<le> j + 15)"
    by (simp only: fst) auto
  also have "\<dots> \<longleftrightarrow> painted_block (x, y)"
    by (simp add: grid_cover [OF assms(1,2)] grid_cover [OF assms(3,4)] painted_block_def)
  finally show ?thesis .
qed

lemma scale_realistic_255: "scale_channel realistic 255 = 306"
  by code_simp

lemma scale_channel_0: "scale_channel style 0 = 0"
  by (simp add: scale_channel_def float_of_int_def fmul_def fl_def py_int_def)

lemma colors_red: "analyze_prompt_colors ''red'' = [(255, 0, 0)]"
  by code_simp

text \<open>
  Claim C4, as the specification states it, fails: pixel (15, 15) of a 20 by 20 texture
  lies in the gutter the claim leaves unfilled, and the routine fills it. The prompt
  "red" gives the palette [(255, 0, 0)]; the style "realistic" scales 255 to 306.
\<close>

theorem texture_block_counterexample:
  "create_procedural_asset seed0 ''red'' ''texture'' ''realistic'' 20 20 =
     Inr (\<lparr>img_width = 20, img_height = 20, img_color = (255, 255, 255, 0),
           img_draw = [Rectangle (0, 0, 15, 15) (306, 0, 0)]\<rparr>, advance seed0 1) \<and>
   \<not> claimed_block (15, 15) \<and>
   pixel no_curves \<lparr>img_width = 20, img_height = 20, img_color = (255, 255, 255, 0),
           img_draw = [Rectangle (0, 0, 15, 15) (306, 0, 0)]\<rparr> (15, 15) = (255, 0, 0, 255)"
proof -
  have t: "generate_texture (seed0, []) 20 20 [(255, 0, 0)] realistic =
      Inr (advance seed0 1, [Rectangle (0, 0, 15, 15) (306, 0, 0)])"
    using generate_texture_calls [of "[(255, 0, 0)]" seed0 "[]" 20 20 realistic]
    by (simp add: cells_across_def ceil20 grid_def cell_call_def pick_def modified_color_def
        scale_realistic_255 scale_channel_0)
  show ?thesis
    by (simp add: create_procedural_asset_def image_new_def colors_red style_realistic t
        claimed_block_def pixel_def ink_def clip8_def)
qed

text \<open>
  Claim C4, amended. For every non-empty palette, style adjustment and positive width
  and height, the texture routine visits the cells with origins (20 a, 20 b),
  a < ceil(width / 20), b < ceil(height / 20), one column of cells after another
  (a outer, b inner), and for the \<open>k\<close>-th cell makes one rectangle call with the box
  (i, j, i + 15, j + 15) and the next palette colour of the random source, its three
  channels each multiplied by the contrast factor and truncated to an integer, not
  clamped. The calls fill, inside the canvas, exactly the pixels with x mod 20 \<le> 15 and
  y mod 20 \<le> 15: a block of 16 by 16 pixels per cell, cut off at the canvas edge, with a
  gutter of 4 pixels.
\<close>

theorem generate_texture_grid:
  assumes "colors \<noteq> []" and "0 < width" and "0 < height"
  shows "generate_texture (g, []) width height colors style =
     Inr (advance g (cells_across width * cells_across height),
          texture_calls style colors g width height) \<and>
   length (texture_calls style colors g width height) =
     nat \<lceil>(of_int width :: rat) / 20\<rceil> * nat \<lceil>(of_int height :: rat) / 20\<rceil> \<and>
   (\<forall>x y. 0 \<le> x \<and> x < width \<and> 0 \<le> y \<and> y < height \<longrightarrow>
      alpha (pixel ras \<lparr>img_width = width, img_height = height, img_color = (255, 255, 255, 0),
                        img_draw = texture_calls style colors g width height\<rparr> (x, y)) =
      (if painted_block (x, y) then 255 else 0))"
proof (intro conjI allI impI)
  show "generate_texture (g, []) width height colors style =
     Inr (advance g (cells_across width * cells_across height),
          texture_calls style colors g width height)"
    using generate_texture_calls [OF assms(1), of g "[]" width height style]
    by (simp add: texture_calls_def)
  show "length (texture_calls style colors g width height) =
     nat \<lceil>(of_int width :: rat) / 20\<rceil> * nat \<lceil>(of_int height :: rat) / 20\<rceil>"
    by (simp add: texture_calls_def grid_def cells_across_def)
next
  fix x y
  assume "0 \<le> x \<and> x < width \<and> 0 \<le> y \<and> y < height"
  then have r: "0 \<le> x" "x < width" "0 \<le> y" "y < height" by simp_all
  show "alpha (pixel ras \<lparr>img_width = width, img_height = height, img_color = (255, 255, 255, 0),
                        img_draw = texture_calls style colors g width height\<rparr> (x, y)) =
      (if painted_block (x, y) then 255 else 0)"
    using texture_cover [OF r, of style colors g ras]
    by (simp add: pixel_def alpha_pixel_after texture_calls_def alpha_tuple)
qed

theorem generate_texture_grid_witness:
  "generate_texture (seed0, []) 40 20 [(255, 0, 0), (0, 0, 255)] realistic =
     Inr (advance seed0 2,
          [Rectangle (0, 0, 15, 15) (306, 0, 0), Rectangle (20, 0, 35, 15) (0, 0, 306)]) \<and>
   alpha (pixel no_curves \<lparr>img_width = 40, img_height = 20, img_color = (255, 255, 255, 0),
       img_draw = [Rectangle (0, 0, 15, 15) (306, 0, 0), Rectangle (20, 0, 35, 15) (0, 0, 306)]\<rparr>
       (35, 15)) = 255 \<and>
   alpha (pixel no_curves \<lparr>img_width = 40, img_height = 20, img_color = (255, 255, 255, 0),
       img_draw = [Rectangle (0, 0, 15, 15) (306, 0, 0), Rectangle (20, 0, 35, 15) (0, 0, 306)]\<rparr>
       (16, 3)) = 0"
proof -
  have calls: "texture_calls realistic [(255, 0, 0), (0, 0, 255)] seed0 40 20 =
      [Rectangle (0, 0, 15, 15) (306, 0, 0), Rectangle (20, 0, 35, 15) (0, 0, 306)]"
    by (simp add: texture_calls_def cells_across_def ceil20 grid_def cell_call_def pick_def
        modified_color_def scale_realistic_255 scale_channel_0 seed0_def upt_rec [of 0]
        upt_rec [of 1] numeral_2_eq_2)
  have n: "cells_across 40 * cells_across 20 = 2"
    by (simp add: cells_across_def ceil20)
  have p1: "painted_block (35, 15)" and p2: "\<not> painted_block (16, 3)"
    by (simp_all add: painted_block_def)
  from generate_texture_grid [of "[(255, 0, 0), (0, 0, 255)]" 40 20 seed0 realistic no_curves]
  show ?thesis
    using p1 p2 by (simp add: calls n)
qed

section \<open>Rounding leaves small integers alone\<close>

lemma round_half_even_int: "round_half_even (of_int m) = m"
  by (simp add: round_half_even_def)

lemma binade_of_int:
  assumes "0 < a"
  shows "binade (of_int a) = bitlen a - 1"
proof -
  have q: "quotient_of (of_int a :: rat) = (a, 1)" by simp
  have b1: "bitlen 1 = 1" by (simp add: bitlen_alt_def)
  have pos: "0 \<le> bitlen a - 1"
    using assms by (simp add: bitlen_alt_def)
  have "2 ^ nat (bitlen a - 1) \<le> a"
    using bitlen_bounds [OF assms] by simp
  then have "(2 :: rat) ^ nat (bitlen a - 1) \<le> of_int a"
    by (metis of_int_le_iff of_int_numeral of_int_power)
  then have "pow2 (bitlen a - 1) \<le> of_int a"
    using pos by (simp add: pow2_def)
  then show ?thesis
    by (simp add: binade_def q b1)
qed

lemma fl_of_int:
  assumes "\<bar>c\<bar> < 2 ^ 53"
  shows "fl (of_int c) = of_int c"
proof (cases "c = 0")
  case True
  then show ?thesis by (simp add: fl_def)
next
  case False
  then have a: "0 < \<bar>c\<bar>" by simp
  define n where "n = nat (53 - bitlen \<bar>c\<bar>)"
  have le: "bitlen \<bar>c\<bar> \<le> 53"
    using assms by (simp add: bitlen_le_iff_power)
  have e: "binade \<bar>of_int c :: rat\<bar> = bitlen \<bar>c\<bar> - 1"
    using binade_of_int [OF a] by (simp only: of_int_abs)
  have u: "pow2 (binade \<bar>of_int c :: rat\<bar> - 52) = 1 / 2 ^ n"
  proof (cases "bitlen \<bar>c\<bar> = 53")
    case True
    then show ?thesis by (simp add: e pow2_def n_def)
  next
    case False
    with le have "bitlen \<bar>c\<bar> - 1 - 52 < 0" by simp
    moreover have "nat (- (bitlen \<bar>c\<bar> - 1 - 52)) = n" by (simp add: n_def)
    ultimately show ?thesis by (simp add: e pow2_def)
  qed
  have "(of_int c :: rat) * 2 ^ n = of_int (c * 2 ^ n)" by simp
  then have r: "round_half_even ((of_int c :: rat) * 2 ^ n) = c * 2 ^ n"
    by (simp only: round_half_even_int)
  show ?thesis
    using False by (simp add: fl_def u r Let_def)
qed

lemma fl_0: "fl 0 = 0"
  by (simp add: fl_def)

lemma fl_1: "fl 1 = 1"
  using fl_of_int [of 1] by simp

lemma py_int_of_int: "py_int (of_int c) = c"
  by (simp add: py_int_def)

lemma blend_top: "\<bar>c1\<bar> < 2 ^ 53 \<Longrightarrow> blend c1 c2 0 = c1"
  by (simp add: blend_def fadd_def fmul_def fsub_def float_of_int_def fl_1 fl_0 fl_of_int
      py_int_of_int)

section \<open>The background routine\<close>

lemma background_rows_calls:
  assumes "colors \<noteq> []" and "height \<noteq> 0"
  shows "background_rows colors width height ys (g, d) =
     Inr (g, d @ map (row_line colors width height) ys)"
proof (induction ys arbitrary: d)
  case Nil
  then show ?case by simp
next
  case (Cons y ys)
  have i0: "py_index colors 0 = Inr (colors ! 0)"
    using assms(1) by (simp add: py_index_def)
  have i1: "second_or colors (Inr (colors ! 0)) = Inr (second_color colors)"
    using assms(1) by (simp add: second_or_def py_index_def second_color_def)
  show ?case
    using assms(2)
    by (simp add: true_div_def i0 i1 Cons.IH draw_line_def row_line_def row_color_def)
qed

lemma generate_background_calls:
  assumes "colors \<noteq> []" and "0 < height"
  shows "generate_background (g, d) width height colors style =
     Inr (g, d @ map (row_line colors width height) (map int [0..<nat height]))"
  using assms background_rows_calls [of colors height width "map int [0..<nat height]" g d]
  by (simp add: generate_background_def py_range_rows)

lemma pixel_after_rows:
  assumes "0 \<le> x" and "x \<le> width"
  shows "pixel_after ras (map (row_line colors width height) ys) (x, y) cur =
     (if y \<in> set ys then ink (row_color colors height y) else cur)"
proof (induction ys arbitrary: cur)
  case Nil
  then show ?case by simp
next
  case (Cons y' ys)
  show ?case
  proof (cases "y' = y")
    case True
    have "paint ras (row_line colors width height y) (x, y) =
        Some (row_color colors height y)"
      using assms by (simp add: row_line_def)
    then show ?thesis by (simp add: True Cons.IH)
  next
    case False
    then have "paint ras (row_line colors width height y') (x, y) = None"
      by (simp add: row_line_def)
    then show ?thesis using False by (simp add: Cons.IH)
  qed
qed

lemma row_color_top:
  assumes "valid_rgb (colors ! 0)"
  shows "row_color colors height 0 = colors ! 0"
proof -
  obtain r g b where c: "colors ! 0 = (r, g, b)" by (cases "colors ! 0")
  have "\<bar>r\<bar> < 2 ^ 53" "\<bar>g\<bar> < 2 ^ 53" "\<bar>b\<bar> < 2 ^ 53"
    using assms by (simp_all add: valid_rgb_def c)
  then show ?thesis
    by (cases "second_color colors")
      (simp add: row_color_def blend_color_def c fl_0 blend_top)
qed

text \<open>Evaluations: black to white over 2 rows, and row 99 of 100.\<close>

lemma colors_black_white: "analyze_prompt_colors ''black white'' = [(0, 0, 0), (255, 255, 255)]"
  by code_simp

lemma row_color_bw_2: "row_color [(0, 0, 0), (255, 255, 255)] 2 0 = (0, 0, 0)"
  "row_color [(0, 0, 0), (255, 255, 255)] 2 1 = (127, 127, 127)"
  by code_simp+

lemma row_color_bw_100: "row_color [(0, 0, 0), (255, 255, 255)] 100 99 = (252, 252, 252)"
  by code_simp

text \<open>
  Claim C5, as the specification states it, fails: the bottom row is not the second
  colour. From black to white over 2 rows the bottom row is (127, 127, 127); over 100
  rows, row 99 is (252, 252, 252).
\<close>

theorem background_bottom_row_counterexample:
  "create_procedural_asset seed0 ''black white'' ''background'' ''realistic'' 1 2 =
     Inr (\<lparr>img_width = 1, img_height = 2, img_color = (255, 255, 255, 0),
           img_draw = [Line (0, 0) (1, 0) (0, 0, 0), Line (0, 1) (1, 1) (127, 127, 127)]\<rparr>,
          seed0) \<and>
   pixel no_curves \<lparr>img_width = 1, img_height = 2, img_color = (255, 255, 255, 0),
           img_draw = [Line (0, 0) (1, 0) (0, 0, 0), Line (0, 1) (1, 1) (127, 127, 127)]\<rparr>
     (0, 1) = (127, 127, 127, 255) \<and>
   row_color [(0, 0, 0), (255, 255, 255)] 100 99 = (252, 252, 252)"
proof -
  have b: "generate_background (seed0, []) 1 2 [(0, 0, 0), (255, 255, 255)] realistic =
      Inr (seed0, [Line (0, 0) (1, 0) (0, 0, 0), Line (0, 1) (1, 1) (127, 127, 127)])"
    using generate_background_calls [of "[(0, 0, 0), (255, 255, 255)]" 2 seed0 "[]" 1 realistic]
    by (simp add: row_line_def row_color_bw_2 upt_rec [of 0] upt_rec [of 1] numeral_2_eq_2)
  show ?thesis
    by (simp add: create_procedural_asset_def image_new_def colors_black_white style_realistic b
        pixel_def ink_def clip8_def row_color_bw_100)
qed

text \<open>
  Claim C5, amended. For every non-empty palette and positive width and height, the
  background routine draws one line per row \<open>y\<close>, 0 \<le> y < height, which fills the row with
  the blend of the first palette colour and the second (the first again when the
  palette has one entry): per channel \<open>int(c1 * (1 - ratio) + c2 * ratio)\<close> in float
  arithmetic with \<open>ratio = y / height\<close>, truncated, not rounded. The top row equals the
  first colour (for channels in 0..255). The ratio of the bottom row is
  (height - 1) / height, not 1: the bottom row is that blend, not the second colour.
\<close>

theorem generate_background_rows:
  assumes "colors \<noteq> []" and "0 < width" and "0 < height"
  shows "generate_background (g, []) width height colors style =
     Inr (g, map (row_line colors width height) (map int [0..<nat height])) \<and>
   (\<forall>x y. 0 \<le> x \<and> x < width \<and> 0 \<le> y \<and> y < height \<longrightarrow>
      pixel ras \<lparr>img_width = width, img_height = height, img_color = (255, 255, 255, 0),
                 img_draw = map (row_line colors width height) (map int [0..<nat height])\<rparr>
        (x, y) = ink (row_color colors height y)) \<and>
   (valid_rgb (colors ! 0) \<longrightarrow> row_color colors height 0 = colors ! 0)"
proof (intro conjI allI impI)
  show "generate_background (g, []) width height colors style =
     Inr (g, map (row_line colors width height) (map int [0..<nat height]))"
    using generate_background_calls [OF assms(1,3), of g "[]" width style] by simp
next
  fix x y
  assume "0 \<le> x \<and> x < width \<and> 0 \<le> y \<and> y < height"
  then have r: "0 \<le> x" "x \<le> width" "0 \<le> y" "y < height" by simp_all
  have "y \<in> set (map int [0..<nat height])"
  proof -
    have "nat y < nat height" using r by simp
    then have "int (nat y) \<in> int ` {0..<nat height}" by (intro imageI) simp
    then show ?thesis using r by simp
  qed
  then show "pixel ras \<lparr>img_width = width, img_height = height, img_color = (255, 255, 255, 0),
                 img_draw = map (row_line colors width height) (map int [0..<nat height])\<rparr>
        (x, y) = ink (row_color colors height y)"
    by (simp only: pixel_def image.simps pixel_after_rows [OF r(1,2)] if_True)
next
  assume "valid_rgb (colors ! 0)"
  then show "row_color colors height 0 = colors ! 0" by (rule row_color_top)
qed

theorem generate_background_rows_witness:
  "generate_background (seed0, []) 1 2 [(0, 0, 0), (255, 255, 255)] realistic =
     Inr (seed0, [Line (0, 0) (1, 0) (0, 0, 0), Line (0, 1) (1, 1) (127, 127, 127)]) \<and>
   pixel no_curves \<lparr>img_width = 1, img_height = 2, img_color = (255, 255, 255, 0),
           img_draw = [Line (0, 0) (1, 0) (0, 0, 0), Line (0, 1) (1, 1) (127, 127, 127)]\<rparr>
     (0, 0) = (0, 0, 0, 255) \<and>
   valid_rgb ([(0, 0, 0), (255, 255, 255)] ! 0) \<and>
   row_color [(0, 0, 0), (255, 255, 255)] 2 0 = (0, 0, 0)"
proof -
  have rows: "map (row_line [(0, 0, 0), (255, 255, 255)] 1 2) (map int [0..<nat 2]) =
      [Line (0, 0) (1, 0) (0, 0, 0), Line (0, 1) (1, 1) (127, 127, 127)]"
    by (simp add: row_line_def row_color_bw_2 upt_rec [of 0] upt_rec [of 1] numeral_2_eq_2)
  have v: "valid_rgb ([(0, 0, 0), (255, 255, 255)] ! 0)" by (simp add: valid_rgb_def)
  note th = generate_background_rows
    [of "[(0, 0, 0), (255, 255, 255)]" 1 2 seed0 realistic no_curves, unfolded rows]
  have g: "generate_background (seed0, []) 1 2 [(0, 0, 0), (255, 255, 255)] realistic =
      Inr (seed0, [Line (0, 0) (1, 0) (0, 0, 0), Line (0, 1) (1, 1) (127, 127, 127)])"
    using th by simp
  have p: "pixel no_curves \<lparr>img_width = 1, img_height = 2, img_color = (255, 255, 255, 0),
           img_draw = [Line (0, 0) (1, 0) (0, 0, 0), Line (0, 1) (1, 1) (127, 127, 127)]\<rparr>
     (0, 0) = ink (row_color [(0, 0, 0), (255, 255, 255)] 2 0)"
    using th by simp
  have t: "row_color [(0, 0, 0), (255, 255, 255)] 2 0 = [(0, 0, 0), (255, 255, 255)] ! 0"
    using th v by simp
  show ?thesis
    using g p t v by (simp add: ink_def clip8_def)
qed

section \<open>The colour palette summary ranks before it drops the transparent colours\<close>

lemma sorted_reverse_falling: "falling (sorted_reverse cs)"
proof -
  have "sorted (map fst (sort_key fst (rev cs)))" by (rule sorted_sort_key)
  then have "sorted_wrt (\<lambda>a b. fst a \<le> fst b) (sort_key fst (rev cs))"
    by (simp add: sorted_map)
  then show ?thesis
    by (simp add: falling_def sorted_reverse_def sorted_wrt_rev)
qed

lemma mset_sorted_reverse: "mset (sorted_reverse cs) = mset cs"
  by (simp add: sorted_reverse_def)

lemma falling_kept: "falling cs \<Longrightarrow> falling (filter P (take n cs))"
  unfolding falling_def by (intro sorted_wrt_filter sorted_wrt_take)

text \<open>Evaluations on a blank canvas and on a histogram of six colours.\<close>

lemma pixels_blank1: "pixels no_curves blank1 = [(255, 255, 255, 0)]"
  by code_simp

lemma extract_blank1: "extract_color_palette (Some [(1, (255, 255, 255, 0))]) = []"
  by code_simp

lemma extract_six:
  "extract_color_palette (Some [(10, (255, 255, 255, 0)), (5, (255, 0, 0, 255)),
      (4, (0, 255, 0, 255)), (3, (0, 0, 255, 255)), (2, (0, 0, 0, 255)),
      (1, (255, 255, 255, 255))]) = [''#ff0000'', ''#00ff00'', ''#0000ff'', ''#000000'']"
  by code_simp

lemma claimed_six:
  "claimed_palette [(10, (255, 255, 255, 0)), (5, (255, 0, 0, 255)),
      (4, (0, 255, 0, 255)), (3, (0, 0, 255, 255)), (2, (0, 0, 0, 255)),
      (1, (255, 255, 255, 255))] =
     [''#ff0000'', ''#00ff00'', ''#0000ff'', ''#000000'', ''#ffffff'']"
  by code_simp

text \<open>
  Claim C2, as the specification states it, fails twice. A canvas with no opaque pixel
  has the histogram [(1, (255, 255, 255, 0))] and the summary returns the empty list,
  not ["#000000"]. And when a transparent colour is among the five most frequent, the
  fifth most frequent opaque colour is missing from the result: four strings, where
  leaving the transparent pixels out first gives five.
\<close>

theorem palette_transparent_counterexample:
  "is_getcolors (pixels no_curves blank1) (256 * 256 * 256) (Some [(1, (255, 255, 255, 0))]) \<and>
   extract_color_palette (Some [(1, (255, 255, 255, 0))]) = [] \<and>
   extract_color_palette (Some [(10, (255, 255, 255, 0)), (5, (255, 0, 0, 255)),
      (4, (0, 255, 0, 255)), (3, (0, 0, 255, 255)), (2, (0, 0, 0, 255)),
      (1, (255, 255, 255, 255))]) = [''#ff0000'', ''#00ff00'', ''#0000ff'', ''#000000''] \<and>
   claimed_palette [(10, (255, 255, 255, 0)), (5, (255, 0, 0, 255)),
      (4, (0, 255, 0, 255)), (3, (0, 0, 255, 255)), (2, (0, 0, 0, 255)),
      (1, (255, 255, 255, 255))] =
     [''#ff0000'', ''#00ff00'', ''#0000ff'', ''#000000'', ''#ffffff'']"
proof -
  have "is_getcolors (pixels no_curves blank1) (256 * 256 * 256)
      (Some [(1, (255, 255, 255, 0))])"
    by (simp add: is_getcolors_def pixels_blank1 color_counts_def)
  then show ?thesis
    using extract_blank1 extract_six claimed_six by blast
qed

text \<open>
  Claim C2, amended. The summary returns at most 5 hexadecimal RGB strings. Without a
  histogram (\<open>None\<close>, or an empty one) it returns ["#000000"]. Otherwise it ranks all
  colours of the image, the fully transparent ones included, by falling count (a stable
  sort, a permutation of the histogram), takes the first five, and only then drops those
  with alpha 0: the strings name the non-transparent colours among the five most
  frequent colours, in order of falling count. For an image that has a histogram and no
  pixel with alpha above 0, it returns the empty list.
\<close>

theorem extract_color_palette_top5:
  "length (extract_color_palette colors) \<le> 5 \<and>
   (colors = None \<or> colors = Some [] \<longrightarrow> extract_color_palette colors = [''#000000'']) \<and>
   (\<forall>cs. colors = Some cs \<and> cs \<noteq> [] \<longrightarrow>
      extract_color_palette colors =
        map hex_color (filter visible (take 5 (sorted_reverse cs))) \<and>
      mset (sorted_reverse cs) = mset cs \<and>
      falling (sorted_reverse cs) \<and>
      falling (filter visible (take 5 (sorted_reverse cs))) \<and>
      ((\<forall>e \<in> set cs. \<not> visible e) \<longrightarrow> extract_color_palette colors = []))"
proof (intro conjI allI impI)
  show "length (extract_color_palette colors) \<le> 5"
  proof (cases colors)
    case None
    then show ?thesis by (simp add: extract_color_palette_def)
  next
    case (Some cs)
    have "length (filter visible (take 5 (sorted_reverse cs))) \<le> length (take 5 (sorted_reverse cs))"
      by (rule length_filter_le)
    then show ?thesis using Some by (simp add: extract_color_palette_def)
  qed
next
  assume "colors = None \<or> colors = Some []"
  then show "extract_color_palette colors = [''#000000'']"
    by (auto simp: extract_color_palette_def)
next
  fix cs
  assume a: "colors = Some cs \<and> cs \<noteq> []"
  then show "extract_color_palette colors =
        map hex_color (filter visible (take 5 (sorted_reverse cs)))"
    by (simp add: extract_color_palette_def)
  show "mset (sorted_reverse cs) = mset cs" by (rule mset_sorted_reverse)
  show "falling (sorted_reverse cs)" by (rule sorted_reverse_falling)
  show "falling (filter visible (take 5 (sorted_reverse cs)))"
    by (rule falling_kept [OF sorted_reverse_falling])
  assume none: "\<forall>e \<in> set cs. \<not> visible e"
  have "set (take 5 (sorted_reverse cs)) \<subseteq> set cs"
    using set_take_subset [of 5 "sorted_reverse cs"] set_mset_mset [of cs]
    by (metis mset_sorted_reverse set_mset_mset)
  then have "filter visible (take 5 (sorted_reverse cs)) = []"
    using none by (auto simp: filter_empty_conv)
  then show "extract_color_palette colors = []"
    using a by (simp add: extract_color_palette_def)
qed

theorem extract_color_palette_top5_witness:
  "extract_color_palette (Some [(2, (0, 0, 255, 255)), (7, (255, 255, 255, 0)),
      (5, (255, 0, 0, 255))]) = [''#ff0000'', ''#0000ff''] \<and>
   extract_color_palette None = [''#000000''] \<and>
   extract_color_palette (Some [(4, (255, 255, 255, 0))]) = []"
proof -
  let ?cs = "[(2, (0, 0, 255, 255)), (7, (255, 255, 255, 0)), (5, (255, 0, 0, 255))]
               :: (nat \<times> rgba) list"
  have s: "map hex_color (filter visible (take 5 (sorted_reverse ?cs))) =
      [''#ff0000'', ''#0000ff'']"
    by code_simp
  have "extract_color_palette (Some ?cs) =
      map hex_color (filter visible (take 5 (sorted_reverse ?cs)))"
    using extract_color_palette_top5 [of "Some ?cs"] by simp
  moreover have "extract_color_palette None = [''#000000'']"
    using extract_color_palette_top5 [of None] by simp
  moreover have "extract_color_palette (Some [(4, (255, 255, 255, 0))]) = []"
    using extract_color_palette_top5 [of "Some [(4, (255, 255, 255, 0))]"]
    by (simp add: visible_def)
  ultimately show ?thesis by (simp only: s)
qed

section \<open>Which routines read the random source\<close>

lemma with_rng_Inl: "with_rng g (Inl e) = Inl e"
  by (simp add: with_rng_def)

lemma with_rng_Inr: "with_rng g (Inr (g', d)) = Inr (g, d)"
  by (simp add: with_rng_def)

lemma generate_icon_rng:
  "generate_icon (g2, d) w h colors style = with_rng g2 (generate_icon (g1, d) w h colors style)"
  by (simp add: generate_icon_def with_rng_def Let_def split: sum.splits)

lemma background_rows_rng:
  "background_rows colors w h ys (g2, d) = with_rng g2 (background_rows colors w h ys (g1, d))"
proof (induction ys arbitrary: d)
  case Nil
  then show ?case by (simp add: with_rng_Inr)
next
  case (Cons y ys)
  show ?case
    by (simp add: Cons.IH with_rng_Inl split: sum.splits)
qed

lemma generate_background_rng:
  "generate_background (g2, d) w h colors style =
     with_rng g2 (generate_background (g1, d) w h colors style)"
  by (simp add: generate_background_def background_rows_rng [of _ _ _ _ g2 _ g1])

lemma colors_red_blue: "analyze_prompt_colors ''red blue'' = [(255, 0, 0), (0, 0, 255)]"
  by code_simp

lemma shapes_red_blue_rectangle:
  "analyze_prompt_shapes ''red blue rectangle'' = [''rectangle'']"
  "analyze_prompt_colors ''red blue rectangle'' = [(255, 0, 0), (0, 0, 255)]"
  by code_simp+

lemma texture_seed0:
  "create_procedural_asset seed0 ''red blue'' ''texture'' ''realistic'' 20 20 =
     Inr (\<lparr>img_width = 20, img_height = 20, img_color = (255, 255, 255, 0),
           img_draw = [Rectangle (0, 0, 15, 15) (306, 0, 0)]\<rparr>, advance seed0 1)"
proof -
  have t: "generate_texture (seed0, []) 20 20 [(255, 0, 0), (0, 0, 255)] realistic =
      Inr (advance seed0 1, [Rectangle (0, 0, 15, 15) (306, 0, 0)])"
    using generate_texture_calls [of "[(255, 0, 0), (0, 0, 255)]" seed0 "[]" 20 20 realistic]
    by (simp add: cells_across_def ceil20 grid_def cell_call_def pick_def modified_color_def
        scale_realistic_255 scale_channel_0 seed0_def)
  show ?thesis
    by (simp add: create_procedural_asset_def image_new_def colors_red_blue style_realistic t)
qed

lemma texture_seed1:
  "create_procedural_asset seed1 ''red blue'' ''texture'' ''realistic'' 20 20 =
     Inr (\<lparr>img_width = 20, img_height = 20, img_color = (255, 255, 255, 0),
           img_draw = [Rectangle (0, 0, 15, 15) (0, 0, 306)]\<rparr>, advance seed1 1)"
proof -
  have t: "generate_texture (seed1, []) 20 20 [(255, 0, 0), (0, 0, 255)] realistic =
      Inr (advance seed1 1, [Rectangle (0, 0, 15, 15) (0, 0, 306)])"
    using generate_texture_calls [of "[(255, 0, 0), (0, 0, 255)]" seed1 "[]" 20 20 realistic]
    by (simp add: cells_across_def ceil20 grid_def cell_call_def pick_def modified_color_def
        scale_realistic_255 scale_channel_0 seed1_def)
  show ?thesis
    by (simp add: create_procedural_asset_def image_new_def colors_red_blue style_realistic t)
qed

lemma sprite_seed0:
  "create_procedural_asset seed0 ''red blue rectangle'' ''sprite'' ''realistic'' 64 64 =
     Inr (\<lparr>img_width = 64, img_height = 64, img_color = (255, 255, 255, 0),
           img_draw = [Rectangle (11, 11, 53, 53) (255, 0, 0)]\<rparr>, advance seed0 1)"
  by (simp add: create_procedural_asset_def image_new_def shapes_red_blue_rectangle
      style_realistic generate_sprite_def random_choice_def draw_rectangle_def ordered_def
      centered_def advance_def seed0_def)

lemma sprite_seed1:
  "create_procedural_asset seed1 ''red blue rectangle'' ''sprite'' ''realistic'' 64 64 =
     Inr (\<lparr>img_width = 64, img_height = 64, img_color = (255, 255, 255, 0),
           img_draw = [Rectangle (11, 11, 53, 53) (0, 0, 255)]\<rparr>, advance seed1 1)"
  by (simp add: create_procedural_asset_def image_new_def shapes_red_blue_rectangle
      style_realistic generate_sprite_def random_choice_def draw_rectangle_def ordered_def
      centered_def advance_def seed1_def)

text \<open>
  Claim C10. The icon and the background routine never read the random source: for
  these two asset types the image returned is the same for any two states of the
  source, so the synthesis is a function of its arguments. The texture and the sprite
  routine take each colour from the random source: for one and the same prompt, asset
  type, style and size, two states of the source give images that differ in a pixel.
\<close>

theorem randomness_by_category:
  "(asset_type = ''icon'' \<or> asset_type = ''background'' \<longrightarrow>
      map_sum id fst (create_procedural_asset g1 prompt asset_type style width height) =
      map_sum id fst (create_procedural_asset g2 prompt asset_type style width height)) \<and>
   (\<exists>img1 img2.
      create_procedural_asset seed0 ''red blue'' ''texture'' ''realistic'' 20 20 =
        Inr (img1, advance seed0 1) \<and>
      create_procedural_asset seed1 ''red blue'' ''texture'' ''realistic'' 20 20 =
        Inr (img2, advance seed1 1) \<and>
      pixel ras img1 (0, 0) \<noteq> pixel ras img2 (0, 0)) \<and>
   (\<exists>img1 img2.
      create_procedural_asset seed0 ''red blue rectangle'' ''sprite'' ''realistic'' 64 64 =
        Inr (img1, advance seed0 1) \<and>
      create_procedural_asset seed1 ''red blue rectangle'' ''sprite'' ''realistic'' 64 64 =
        Inr (img2, advance seed1 1) \<and>
      pixel ras img1 (32, 32) \<noteq> pixel ras img2 (32, 32))"
proof (intro conjI impI)
  assume a: "asset_type = ''icon'' \<or> asset_type = ''background''"
  show "map_sum id fst (create_procedural_asset g1 prompt asset_type style width height) =
      map_sum id fst (create_procedural_asset g2 prompt asset_type style width height)"
  proof (cases "width < 0 \<or> height < 0")
    case True
    then show ?thesis by (simp add: create_procedural_asset_def image_new_def)
  next
    case False
    from a show ?thesis
    proof
      assume i: "asset_type = ''icon''"
      show ?thesis
        using False
        by (cases "generate_icon (g1, []) width height (analyze_prompt_colors prompt)
              (style_get style)")
          (auto simp: create_procedural_asset_def image_new_def i Let_def with_rng_Inl
            with_rng_Inr generate_icon_rng [of g2 _ _ _ _ _ g1])
    next
      assume b: "asset_type = ''background''"
      show ?thesis
        using False
        by (cases "generate_background (g1, []) width height (analyze_prompt_colors prompt)
              (style_get style)")
          (auto simp: create_procedural_asset_def image_new_def b Let_def with_rng_Inl
            with_rng_Inr generate_background_rng [of g2 _ _ _ _ _ g1])
    qed
  qed
next
  show "\<exists>img1 img2.
      create_procedural_asset seed0 ''red blue'' ''texture'' ''realistic'' 20 20 =
        Inr (img1, advance seed0 1) \<and>
      create_procedural_asset seed1 ''red blue'' ''texture'' ''realistic'' 20 20 =
        Inr (img2, advance seed1 1) \<and>
      pixel ras img1 (0, 0) \<noteq> pixel ras img2 (0, 0)"
    by (simp add: texture_seed0 texture_seed1 pixel_def ink_def clip8_def)
next
  show "\<exists>img1 img2.
      create_procedural_asset seed0 ''red blue rectangle'' ''sprite'' ''realistic'' 64 64 =
        Inr (img1, advance seed0 1) \<and>
      create_procedural_asset seed1 ''red blue rectangle'' ''sprite'' ''realistic'' 64 64 =
        Inr (img2, advance seed1 1) \<and>
      pixel ras img1 (32, 32) \<noteq> pixel ras img2 (32, 32)"
    by (simp add: sprite_seed0 sprite_seed1 pixel_def ink_def clip8_def)
qed

lemma icon_red_seed0:
  "create_procedural_asset seed0 ''red'' ''icon'' ''realistic'' 64 64 =
     Inr (\<lparr>img_width = 64, img_height = 64, img_color = (255, 255, 255, 0),
           img_draw = [Ellipse (11, 11, 53, 53) (255, 0, 0) (Some (255, 0, 0)),
                       Rectangle (22, 22, 42, 42) (255, 255, 255)]\<rparr>, seed0)"
  by (simp add: create_procedural_asset_def image_new_def colors_red style_realistic
      generate_icon_def py_index_def second_or_def draw_ellipse_def draw_rectangle_def
      Let_def centered_def ordered_def)

theorem randomness_by_category_witness:
  "map_sum id fst (create_procedural_asset seed1 ''red'' ''icon'' ''realistic'' 64 64) =
     Inr \<lparr>img_width = 64, img_height = 64, img_color = (255, 255, 255, 0),
          img_draw = [Ellipse (11, 11, 53, 53) (255, 0, 0) (Some (255, 0, 0)),
                      Rectangle (22, 22, 42, 42) (255, 255, 255)]\<rparr>"
  using randomness_by_category [of "''icon''" seed0 "''red''" "''realistic''" 64 64 seed1]
  by (simp add: icon_red_seed0)

section \<open>Exceptions of the drawing routines\<close>

text \<open>
  On a non-empty palette and a positive size the texture, icon and background routines
  return; the sprite routine returns exactly when every processed shape named "circle"
  or "rectangle" has a non-negative half-extent, and raises \<open>ValueError\<close> otherwise.
  The prompt analysis never returns an empty palette or shape set.
\<close>

lemma generate_icon_total:
  assumes "colors \<noteq> []" and "0 \<le> width" and "0 \<le> height"
  shows "\<exists>d'. generate_icon (g, d) width height colors style = Inr (g, d')"
proof -
  have s: "0 \<le> min width height div 3" using assms by simp
  then have s2: "0 \<le> min width height div 3 div 2" by simp
  show ?thesis
    using centered_ordered [OF s] centered_ordered [OF s2] assms(1)
    by (simp add: generate_icon_def py_index_def second_or_def draw_ellipse_def
        draw_rectangle_def Let_def)
qed

lemma drawing_total:
  assumes "colors \<noteq> []" and "0 < width" and "0 < height"
  shows "(\<exists>r. generate_texture (g, d) width height colors style = Inr r) \<and>
         (\<exists>r. generate_icon (g, d) width height colors style = Inr r) \<and>
         (\<exists>r. generate_background (g, d) width height colors style = Inr r) \<and>
         ((\<exists>r. generate_sprite (g, d) width height colors shapes style = Inr r) \<longleftrightarrow>
            (\<forall>k<min 3 (length shapes). shapes ! k \<in> {''circle'', ''rectangle''} \<longrightarrow>
               10 * int k \<le> min width height div 3))"
proof (intro conjI iffI)
  show "\<exists>r. generate_texture (g, d) width height colors style = Inr r"
    by (simp add: generate_texture_calls [OF assms(1)])
  show "\<exists>r. generate_icon (g, d) width height colors style = Inr r"
    using generate_icon_total [OF assms(1), of width height g d style] assms by auto
  show "\<exists>r. generate_background (g, d) width height colors style = Inr r"
    by (simp add: generate_background_calls [OF assms(1,3)])
next
  assume "\<forall>k<min 3 (length shapes). shapes ! k \<in> {''circle'', ''rectangle''} \<longrightarrow>
               10 * int k \<le> min width height div 3"
  then have "\<forall>k<length (take 3 shapes). take 3 shapes ! k \<in> {''circle'', ''rectangle''} \<longrightarrow>
           10 * int k \<le> min width height div 3" by simp
  from sprite_loop_calls [OF assms(1) this]
  show "\<exists>r. generate_sprite (g, d) width height colors shapes style = Inr r"
    by (simp add: generate_sprite_def)
next
  assume ret: "\<exists>r. generate_sprite (g, d) width height colors shapes style = Inr r"
  show "\<forall>k<min 3 (length shapes). shapes ! k \<in> {''circle'', ''rectangle''} \<longrightarrow>
               10 * int k \<le> min width height div 3"
  proof (rule ccontr)
    assume "\<not> ?thesis"
    then have "\<exists>k<length (take 3 shapes). take 3 shapes ! k \<in> {''circle'', ''rectangle''} \<and>
           min width height div 3 < 10 * int k"
      by (auto simp: not_le)
    from sprite_loop_raises [OF assms(1) this] ret show False
      by (simp add: generate_sprite_def)
  qed
qed

lemma prompt_analysis_nonempty:
  "analyze_prompt_colors prompt \<noteq> [] \<and> analyze_prompt_shapes prompt \<noteq> []"
  by (simp add: analyze_prompt_colors_def analyze_prompt_shapes_def default_colors_def Let_def)

lemma circle_rectangle:
  "analyze_prompt_shapes ''circle rectangle'' = [''circle'', ''rectangle'']"
  "analyze_prompt_colors ''circle rectangle'' = [(100, 150, 200), (200, 100, 150), (150, 200, 100)]"
  by code_simp+

text \<open>
  Claim C7 states that no drawing routine raises on a positive size. The sprite routine
  does: on a 16 by 16 canvas with the shapes "circle" and "rectangle" the half-extent is
  5 for the circle and -5 for the rectangle, whose box (13, 13, 3, 3) is rejected with
  \<open>ValueError\<close>.
\<close>

theorem sprite_small_canvas_raises:
  "create_procedural_asset seed0 ''circle rectangle'' ''sprite'' ''realistic'' 16 16 =
     Inl ValueError"
  by (simp add: create_procedural_asset_def image_new_def circle_rectangle style_realistic
      generate_sprite_def random_choice_def draw_ellipse_def draw_rectangle_def ordered_def
      centered_def seed0_def)

end
